theory Spec2Isabelle
  imports Main "HOL-Library.Word"
begin

section \<open>Caregiver visit scheduling: the schedule lifecycle\<close>

text \<open>
  A shallow embedding of the schedule use case (\<open>ScheduleUseCase\<close>), of the PostgreSQL
  repository it persists through (\<open>Repository\<close> of package \<open>schedule\<close>, and \<open>GetByID\<close> of
  the user repository) and of the two controller entry points that validate the
  scheduled slot (\<open>Controller.CreateSchedule\<close>, \<open>Controller.UpdateSchedule\<close>).

  Logging is not modelled: it has no effect on results or on the store.
\<close>

subsection \<open>Primitive types\<close>

text \<open>
  \<open>uuid.UUID\<close> is a 16 byte identifier, here the number its bytes spell; the code only
  compares identifiers, and \<open>uuid.Nil\<close> is the all-zero value. \<open>time.Time\<close> is an
  instant, counted in nanoseconds from Go's zero time, so that \<open>IsZero\<close> is equality
  with 0 and \<open>Before\<close>/\<open>After\<close> are the strict orders. A \<open>float64\<close> is only stored and
  copied, never computed with: it is its 64 bit pattern.
\<close>

type_synonym uuid = nat
type_synonym Time = int
type_synonym float64 = "64 word"

definition uuid_Nil :: uuid where
  "uuid_Nil = 0"

definition IsZero :: "Time \<Rightarrow> bool" where
  "IsZero t = (t = 0)"

definition Before :: "Time \<Rightarrow> Time \<Rightarrow> bool" where
  "Before t u = (t < u)"

definition After :: "Time \<Rightarrow> Time \<Rightarrow> bool" where
  "After t u = (u < t)"

subsection \<open>Errors\<close>

text \<open>
  Package \<open>domain/errors\<close> provides \<open>NewAppError(err, type)\<close>, which keeps the message of
  the wrapped error, and \<open>NewAppErrorWithType(type)\<close>, whose message is fixed by the type.
  Errors of the ORM that the repository hands back unwrapped stay what they are.
\<close>

datatype ErrorType =
    NotFound
  | ValidationError
  | ResourceAlreadyExists
  | RepositoryError
  | UnknownError

text \<open>
  What a database call can fail with: \<open>gorm.ErrRecordNotFound\<close>, GORM's refusal of an
  update without a condition, an error whose JSON form decodes to a \<open>GormErr\<close> with the given
  \<open>Number\<close> (0 when the error carries none), and an error whose JSON form does not decode.
\<close>

datatype db_error =
    ErrRecordNotFound
  | ErrMissingWhereClause
  | DriverError nat
  | OpaqueError

datatype error =
    AppError ErrorType string
  | AppErrorWithType ErrorType
  | GormError db_error
  | JSONError

fun error_type :: "error \<Rightarrow> ErrorType option" where
  "error_type (AppError t m) = Some t"
| "error_type (AppErrorWithType t) = Some t"
| "error_type (GormError e) = None"
| "error_type JSONError = None"

subsection \<open>Domain model (package \<open>domain/schedule\<close>, \<open>domain/user\<close>)\<close>

record Location =
  Lat :: "float64 option"
  Long :: "float64 option"

record ScheduledSlot =
  From :: Time
  To :: Time

record Task =
  Task_ID :: uuid
  Task_ScheduleID :: uuid
  Task_Title :: string
  Task_Description :: string
  Task_Status :: string
  Task_Done :: "bool option"
  Task_Feedback :: "string option"
  Task_CreatedAt :: Time
  Task_UpdatedAt :: Time

record Schedule =
  ID :: uuid
  ClientUserID :: uuid
  AssignedUserID :: uuid
  ServiceName :: string
  ScheduledSlot :: ScheduledSlot
  VisitStatus :: string
  CheckinTime :: "Time option"
  CheckoutTime :: "Time option"
  CheckinLocation :: Location
  CheckoutLocation :: Location
  Tasks :: "Task list"
  ServiceNote :: "string option"
  CreatedAt :: Time
  UpdatedAt :: Time

record UserLocation =
  HouseNumber :: string
  Street :: string
  City :: string
  State :: string
  Pincode :: string
  User_Lat :: float64
  User_Long :: float64

record User =
  User_ID :: uuid
  UserName :: string
  Email :: string
  FirstName :: string
  LastName :: string
  User_Status :: bool
  HashPassword :: string
  Role :: string
  ProfilePicture :: string
  User_Location :: UserLocation
  User_CreatedAt :: Time
  User_UpdatedAt :: Time

subsection \<open>Rows of the relational store (package \<open>repository/psql/schedule\<close>)\<close>

record TaskRow =
  TaskRow_ID :: uuid
  TaskRow_ScheduleID :: uuid
  TaskRow_Title :: string
  TaskRow_Description :: string
  TaskRow_Status :: string
  TaskRow_Done :: "bool option"
  TaskRow_Feedback :: "string option"
  TaskRow_CreatedAt :: Time
  TaskRow_UpdatedAt :: Time

record ScheduleRow =
  Row_ID :: uuid
  Row_ClientUserID :: uuid
  Row_AssignedUserID :: uuid
  Row_ServiceName :: string
  Row_ScheduledSlotFrom :: Time
  Row_ScheduledSlotTo :: Time
  Row_VisitStatus :: string
  Row_CheckinTime :: "Time option"
  Row_CheckoutTime :: "Time option"
  Row_CheckinLocationLat :: "float64 option"
  Row_CheckinLocationLong :: "float64 option"
  Row_CheckoutLocationLat :: "float64 option"
  Row_CheckoutLocationLong :: "float64 option"
  Row_Tasks :: "TaskRow list"
  Row_ServiceNote :: "string option"
  Row_CreatedAt :: Time
  Row_UpdatedAt :: Time

definition task_toDomainMapper :: "TaskRow \<Rightarrow> Task" where
  "task_toDomainMapper t =
     \<lparr> Task_ID = TaskRow_ID t,
       Task_ScheduleID = TaskRow_ScheduleID t,
       Task_Title = TaskRow_Title t,
       Task_Description = TaskRow_Description t,
       Task_Status = TaskRow_Status t,
       Task_Done = TaskRow_Done t,
       Task_Feedback = TaskRow_Feedback t,
       Task_CreatedAt = TaskRow_CreatedAt t,
       Task_UpdatedAt = TaskRow_UpdatedAt t \<rparr>"

definition toDomainMapper :: "ScheduleRow \<Rightarrow> Schedule" where
  "toDomainMapper s =
     \<lparr> ID = Row_ID s,
       ClientUserID = Row_ClientUserID s,
       AssignedUserID = Row_AssignedUserID s,
       ServiceName = Row_ServiceName s,
       ScheduledSlot = \<lparr> From = Row_ScheduledSlotFrom s, To = Row_ScheduledSlotTo s \<rparr>,
       VisitStatus = Row_VisitStatus s,
       CheckinTime = Row_CheckinTime s,
       CheckoutTime = Row_CheckoutTime s,
       CheckinLocation = \<lparr> Lat = Row_CheckinLocationLat s, Long = Row_CheckinLocationLong s \<rparr>,
       CheckoutLocation = \<lparr> Lat = Row_CheckoutLocationLat s, Long = Row_CheckoutLocationLong s \<rparr>,
       Tasks = map task_toDomainMapper (Row_Tasks s),
       ServiceNote = Row_ServiceNote s,
       CreatedAt = Row_CreatedAt s,
       UpdatedAt = Row_UpdatedAt s \<rparr>"

definition arrayToDomainMapper :: "ScheduleRow list \<Rightarrow> Schedule list" where
  "arrayToDomainMapper rows = map toDomainMapper rows"

definition task_fromDomainMapper :: "Task \<Rightarrow> TaskRow" where
  "task_fromDomainMapper task =
     \<lparr> TaskRow_ID = Task_ID task,
       TaskRow_ScheduleID = Task_ScheduleID task,
       TaskRow_Title = Task_Title task,
       TaskRow_Description = Task_Description task,
       TaskRow_Status = Task_Status task,
       TaskRow_Done = Task_Done task,
       TaskRow_Feedback = Task_Feedback task,
       TaskRow_CreatedAt = Task_CreatedAt task,
       TaskRow_UpdatedAt = Task_UpdatedAt task \<rparr>"

definition fromDomainMapper :: "Schedule \<Rightarrow> ScheduleRow" where
  "fromDomainMapper s =
     \<lparr> Row_ID = ID s,
       Row_ClientUserID = ClientUserID s,
       Row_AssignedUserID = AssignedUserID s,
       Row_ServiceName = ServiceName s,
       Row_ScheduledSlotFrom = From (ScheduledSlot s),
       Row_ScheduledSlotTo = To (ScheduledSlot s),
       Row_VisitStatus = VisitStatus s,
       Row_CheckinTime = CheckinTime s,
       Row_CheckoutTime = CheckoutTime s,
       Row_CheckinLocationLat = Lat (CheckinLocation s),
       Row_CheckinLocationLong = Long (CheckinLocation s),
       Row_CheckoutLocationLat = Lat (CheckoutLocation s),
       Row_CheckoutLocationLong = Long (CheckoutLocation s),
       Row_Tasks = map task_fromDomainMapper (Tasks s),
       Row_ServiceNote = ServiceNote s,
       Row_CreatedAt = CreatedAt s,
       Row_UpdatedAt = UpdatedAt s \<rparr>"

subsection \<open>Field maps\<close>

text \<open>
  A \<open>map[string]interface{}\<close> carries values of any dynamic type. The constructors are the
  dynamic types this code base puts into such a map. The map itself is a list of entries
  read with \<open>map_of\<close>; a Go map holds each key once.
\<close>

datatype dyn =
    DNil
  | DString string
  | DBool bool
  | DUuid uuid
  | DTime Time
  | DFloat64 float64
  | DStringPtr "string option"
  | DBoolPtr "bool option"
  | DFloat64Ptr "float64 option"
  | DTimePtr "Time option"

type_synonym updates = "(string \<times> dyn) list"

text \<open>
  What a column takes. A value goes to the database as a query parameter, and a Go string
  is sent as text, which PostgreSQL reads by the column's type: for a \<open>uuid\<close> column
  the model has the canonical text form, 32 hexadecimal digits in groups of 8, 4, 4, 4
  and 12 with hyphens between. A pointer is its target or \<open>NULL\<close>. Any other value is
  refused (\<open>None\<close>).
\<close>

definition hex_digit :: "char \<Rightarrow> nat option" where
  "hex_digit c =
     (let n = (of_char c :: nat)
      in if 48 \<le> n \<and> n \<le> 57 then Some (n - 48)
         else if 97 \<le> n \<and> n \<le> 102 then Some (n - 87)
         else if 65 \<le> n \<and> n \<le> 70 then Some (n - 55)
         else None)"

fun hex_value :: "nat \<Rightarrow> string \<Rightarrow> nat option" where
  "hex_value acc [] = Some acc"
| "hex_value acc (c # cs) =
     (case hex_digit c of
        None \<Rightarrow> None
      | Some v \<Rightarrow> hex_value (16 * acc + v) cs)"

definition uuid_of_string :: "string \<Rightarrow> uuid option" where
  "uuid_of_string s =
     (if length s = 36 \<and> s ! 8 = CHR ''-'' \<and> s ! 13 = CHR ''-'' \<and> s ! 18 = CHR ''-''
         \<and> s ! 23 = CHR ''-''
      then hex_value 0 (take 8 s @ take 4 (drop 9 s) @ take 4 (drop 14 s)
                        @ take 4 (drop 19 s) @ drop 24 s)
      else None)"

fun as_uuid :: "dyn \<Rightarrow> uuid option" where
  "as_uuid (DUuid u) = Some u"
| "as_uuid (DString s) = uuid_of_string s"
| "as_uuid v = None"

fun as_string :: "dyn \<Rightarrow> string option" where
  "as_string (DString s) = Some s"
| "as_string (DStringPtr (Some s)) = Some s"
| "as_string v = None"

fun as_time :: "dyn \<Rightarrow> Time option" where
  "as_time (DTime t) = Some t"
| "as_time (DTimePtr (Some t)) = Some t"
| "as_time v = None"

fun as_string_ptr :: "dyn \<Rightarrow> string option option" where
  "as_string_ptr (DString s) = Some (Some s)"
| "as_string_ptr (DStringPtr p) = Some p"
| "as_string_ptr DNil = Some None"
| "as_string_ptr v = None"

fun as_bool_ptr :: "dyn \<Rightarrow> bool option option" where
  "as_bool_ptr (DBool b) = Some (Some b)"
| "as_bool_ptr (DBoolPtr p) = Some p"
| "as_bool_ptr DNil = Some None"
| "as_bool_ptr v = None"

fun as_time_ptr :: "dyn \<Rightarrow> Time option option" where
  "as_time_ptr (DTime t) = Some (Some t)"
| "as_time_ptr (DTimePtr p) = Some p"
| "as_time_ptr DNil = Some None"
| "as_time_ptr v = None"

fun as_float64_ptr :: "dyn \<Rightarrow> float64 option option" where
  "as_float64_ptr (DFloat64 f) = Some (Some f)"
| "as_float64_ptr (DFloat64Ptr p) = Some p"
| "as_float64_ptr DNil = Some None"
| "as_float64_ptr v = None"

subsection \<open>The database behind GORM\<close>

text \<open>
  The repository reaches PostgreSQL through GORM, which is not part of this code base.
  The model of it is: three tables; a script of faults, of which every database call
  consumes one entry (\<open>None\<close>, or an exhausted script, lets the call through), so that any
  call can fail with any error; the clock GORM stamps \<open>updated_at\<close> and \<open>created_at\<close> from;
  and the identifiers \<open>gen_random_uuid()\<close> delivers. A call that fails changes no table.
\<close>

record db =
  db_schedules :: "ScheduleRow list"
  db_tasks :: "TaskRow list"
  db_users :: "User list"
  db_faults :: "db_error option list"
  db_now :: Time
  db_idseq :: "nat \<Rightarrow> uuid"
  db_idctr :: nat

definition db_call :: "db \<Rightarrow> db_error option \<times> db" where
  "db_call d = (case db_faults d of
                  [] \<Rightarrow> (None, d)
                | f # fs \<Rightarrow> (f, d\<lparr>db_faults := fs\<rparr>))"

text \<open>\<open>Preload("Tasks")\<close>: the rows of \<open>tasks\<close> whose \<open>schedule_id\<close> is the schedule's.\<close>

definition preload_tasks :: "TaskRow list \<Rightarrow> ScheduleRow \<Rightarrow> ScheduleRow" where
  "preload_tasks ts r = r\<lparr>Row_Tasks := filter (\<lambda>t. TaskRow_ScheduleID t = Row_ID r) ts\<rparr>"

text \<open>\<open>DB.Preload("Tasks").Where("id = ?", id).First(&schedule)\<close>\<close>

definition db_first_schedule :: "uuid \<Rightarrow> db \<Rightarrow> (db_error + ScheduleRow) \<times> db" where
  "db_first_schedule sid d =
     (case db_call d of
        (Some e, d') \<Rightarrow> (Inl e, d')
      | (None, d') \<Rightarrow>
          (case find (\<lambda>r. Row_ID r = sid) (db_schedules d') of
             None \<Rightarrow> (Inl ErrRecordNotFound, d')
           | Some r \<Rightarrow> (Inr (preload_tasks (db_tasks d') r), d')))"

text \<open>\<open>DB.Where("id = ?", taskID).First(&taskObj)\<close>\<close>

definition db_first_task :: "uuid \<Rightarrow> db \<Rightarrow> (db_error + TaskRow) \<times> db" where
  "db_first_task tid d =
     (case db_call d of
        (Some e, d') \<Rightarrow> (Inl e, d')
      | (None, d') \<Rightarrow>
          (case find (\<lambda>t. TaskRow_ID t = tid) (db_tasks d') of
             None \<Rightarrow> (Inl ErrRecordNotFound, d')
           | Some t \<Rightarrow> (Inr t, d')))"

text \<open>\<open>DB.Where("id = ?", id).First(&user)\<close>\<close>

definition db_first_user :: "uuid \<Rightarrow> db \<Rightarrow> (db_error + User) \<times> db" where
  "db_first_user uid d =
     (case db_call d of
        (Some e, d') \<Rightarrow> (Inl e, d')
      | (None, d') \<Rightarrow>
          (case find (\<lambda>u. User_ID u = uid) (db_users d') of
             None \<Rightarrow> (Inl ErrRecordNotFound, d')
           | Some u \<Rightarrow> (Inr u, d')))"

text \<open>
  \<open>DB.Preload("Tasks").Where("assigned_user_id = ? AND visit_status = ?", id, "in_progress").Find(&schedules)\<close>
\<close>

definition db_find_in_progress :: "uuid \<Rightarrow> db \<Rightarrow> (db_error + ScheduleRow list) \<times> db" where
  "db_find_in_progress uid d =
     (case db_call d of
        (Some e, d') \<Rightarrow> (Inl e, d')
      | (None, d') \<Rightarrow>
          (Inr (map (preload_tasks (db_tasks d'))
                  (filter (\<lambda>r. Row_AssignedUserID r = uid \<and> Row_VisitStatus r = ''in_progress'')
                     (db_schedules d'))), d'))"

text \<open>
  \<open>Updates(map)\<close> writes one column per entry. GORM finds the column of a key by its
  database name or by the name of the struct field; a key that names neither reaches the
  database as a column the table does not have, and a value the column cannot take is
  refused, both with a driver error. The key \<open>Tasks\<close> names the association and writes
  no column.
\<close>

definition schedule_column :: "string \<Rightarrow> dyn \<Rightarrow> (ScheduleRow \<Rightarrow> ScheduleRow) option" where
  "schedule_column k v =
     (if k = ''id'' \<or> k = ''ID'' then
        map_option (\<lambda>x r. r\<lparr>Row_ID := x\<rparr>) (as_uuid v)
      else if k = ''client_user_id'' \<or> k = ''ClientUserID'' then
        map_option (\<lambda>x r. r\<lparr>Row_ClientUserID := x\<rparr>) (as_uuid v)
      else if k = ''assigned_user_id'' \<or> k = ''AssignedUserID'' then
        map_option (\<lambda>x r. r\<lparr>Row_AssignedUserID := x\<rparr>) (as_uuid v)
      else if k = ''service_name'' \<or> k = ''ServiceName'' then
        map_option (\<lambda>x r. r\<lparr>Row_ServiceName := x\<rparr>) (as_string v)
      else if k = ''scheduled_slot_from'' \<or> k = ''ScheduledSlotFrom'' then
        map_option (\<lambda>x r. r\<lparr>Row_ScheduledSlotFrom := x\<rparr>) (as_time v)
      else if k = ''scheduled_slot_to'' \<or> k = ''ScheduledSlotTo'' then
        map_option (\<lambda>x r. r\<lparr>Row_ScheduledSlotTo := x\<rparr>) (as_time v)
      else if k = ''visit_status'' \<or> k = ''VisitStatus'' then
        map_option (\<lambda>x r. r\<lparr>Row_VisitStatus := x\<rparr>) (as_string v)
      else if k = ''checkin_time'' \<or> k = ''CheckinTime'' then
        map_option (\<lambda>x r. r\<lparr>Row_CheckinTime := x\<rparr>) (as_time_ptr v)
      else if k = ''checkout_time'' \<or> k = ''CheckoutTime'' then
        map_option (\<lambda>x r. r\<lparr>Row_CheckoutTime := x\<rparr>) (as_time_ptr v)
      else if k = ''checkin_location_lat'' \<or> k = ''CheckinLocationLat'' then
        map_option (\<lambda>x r. r\<lparr>Row_CheckinLocationLat := x\<rparr>) (as_float64_ptr v)
      else if k = ''checkin_location_long'' \<or> k = ''CheckinLocationLong'' then
        map_option (\<lambda>x r. r\<lparr>Row_CheckinLocationLong := x\<rparr>) (as_float64_ptr v)
      else if k = ''checkout_location_lat'' \<or> k = ''CheckoutLocationLat'' then
        map_option (\<lambda>x r. r\<lparr>Row_CheckoutLocationLat := x\<rparr>) (as_float64_ptr v)
      else if k = ''checkout_location_long'' \<or> k = ''CheckoutLocationLong'' then
        map_option (\<lambda>x r. r\<lparr>Row_CheckoutLocationLong := x\<rparr>) (as_float64_ptr v)
      else if k = ''service_note'' \<or> k = ''ServiceNote'' then
        map_option (\<lambda>x r. r\<lparr>Row_ServiceNote := x\<rparr>) (as_string_ptr v)
      else if k = ''created_at'' \<or> k = ''CreatedAt'' then
        map_option (\<lambda>x r. r\<lparr>Row_CreatedAt := x\<rparr>) (as_time v)
      else if k = ''updated_at'' \<or> k = ''UpdatedAt'' then
        map_option (\<lambda>x r. r\<lparr>Row_UpdatedAt := x\<rparr>) (as_time v)
      else if k = ''Tasks'' then Some (\<lambda>r. r)
      else None)"

definition task_column :: "string \<Rightarrow> dyn \<Rightarrow> (TaskRow \<Rightarrow> TaskRow) option" where
  "task_column k v =
     (if k = ''id'' \<or> k = ''ID'' then
        map_option (\<lambda>x t. t\<lparr>TaskRow_ID := x\<rparr>) (as_uuid v)
      else if k = ''schedule_id'' \<or> k = ''ScheduleID'' then
        map_option (\<lambda>x t. t\<lparr>TaskRow_ScheduleID := x\<rparr>) (as_uuid v)
      else if k = ''title'' \<or> k = ''Title'' then
        map_option (\<lambda>x t. t\<lparr>TaskRow_Title := x\<rparr>) (as_string v)
      else if k = ''description'' \<or> k = ''Description'' then
        map_option (\<lambda>x t. t\<lparr>TaskRow_Description := x\<rparr>) (as_string v)
      else if k = ''status'' \<or> k = ''Status'' then
        map_option (\<lambda>x t. t\<lparr>TaskRow_Status := x\<rparr>) (as_string v)
      else if k = ''done'' \<or> k = ''Done'' then
        map_option (\<lambda>x t. t\<lparr>TaskRow_Done := x\<rparr>) (as_bool_ptr v)
      else if k = ''feedback'' \<or> k = ''Feedback'' then
        map_option (\<lambda>x t. t\<lparr>TaskRow_Feedback := x\<rparr>) (as_string_ptr v)
      else if k = ''created_at'' \<or> k = ''CreatedAt'' then
        map_option (\<lambda>x t. t\<lparr>TaskRow_CreatedAt := x\<rparr>) (as_time v)
      else if k = ''updated_at'' \<or> k = ''UpdatedAt'' then
        map_option (\<lambda>x t. t\<lparr>TaskRow_UpdatedAt := x\<rparr>) (as_time v)
      else None)"

text \<open>All entries of a field map as one row transformer, or \<open>None\<close> when one is refused.\<close>

fun assignments :: "(string \<Rightarrow> dyn \<Rightarrow> ('r \<Rightarrow> 'r) option) \<Rightarrow> updates \<Rightarrow> ('r \<Rightarrow> 'r) option" where
  "assignments col [] = Some (\<lambda>r. r)"
| "assignments col ((k, v) # kvs) =
     (case col k v of
        None \<Rightarrow> None
      | Some f \<Rightarrow> (case assignments col kvs of
                     None \<Rightarrow> None
                   | Some g \<Rightarrow> Some (\<lambda>r. g (f r))))"

text \<open>
  GORM adds \<open>updated_at = now\<close> to an update whose map sets neither \<open>UpdatedAt\<close> nor
  \<open>updated_at\<close> (the \<open>autoUpdateTime\<close> tag).
\<close>

definition sets_updated_at :: "updates \<Rightarrow> bool" where
  "sets_updated_at upd = (map_of upd ''UpdatedAt'' \<noteq> None \<or> map_of upd ''updated_at'' \<noteq> None)"

text \<open>\<open>DB.Model(&scheduleObj).Updates(updates)\<close>: the rows whose \<open>id\<close> is that of \<open>scheduleObj\<close>.\<close>

definition db_updates_schedule :: "uuid \<Rightarrow> updates \<Rightarrow> db \<Rightarrow> db_error option \<times> db" where
  "db_updates_schedule sid upd d =
     (case db_call d of
        (Some e, d') \<Rightarrow> (Some e, d')
      | (None, d') \<Rightarrow>
          (if sid = uuid_Nil then (Some ErrMissingWhereClause, d')
           else case assignments schedule_column upd of
                  None \<Rightarrow> (Some (DriverError 0), d')
                | Some f \<Rightarrow>
                    (None, d'\<lparr>db_schedules :=
                       map (\<lambda>r. if Row_ID r = sid
                                 then (if sets_updated_at upd then f r
                                       else f (r\<lparr>Row_UpdatedAt := db_now d'\<rparr>))
                                 else r) (db_schedules d')\<rparr>)))"

text \<open>\<open>taskObj.ID = taskID; DB.Model(&taskObj).Updates(updates)\<close>\<close>

definition db_updates_task :: "uuid \<Rightarrow> updates \<Rightarrow> db \<Rightarrow> db_error option \<times> db" where
  "db_updates_task tid upd d =
     (case db_call d of
        (Some e, d') \<Rightarrow> (Some e, d')
      | (None, d') \<Rightarrow>
          (if tid = uuid_Nil then (Some ErrMissingWhereClause, d')
           else case assignments task_column upd of
                  None \<Rightarrow> (Some (DriverError 0), d')
                | Some f \<Rightarrow>
                    (None, d'\<lparr>db_tasks :=
                       map (\<lambda>t. if TaskRow_ID t = tid
                                 then (if sets_updated_at upd then f t
                                       else f (t\<lparr>TaskRow_UpdatedAt := db_now d'\<rparr>))
                                 else t) (db_tasks d')\<rparr>)))"

text \<open>
  \<open>DB.Create(scheduleModel)\<close> inserts the schedule and, through the association, its tasks,
  in one transaction. The database generates an identifier where the model's is nil (the
  \<open>default:gen_random_uuid()\<close> tag), GORM stamps zero \<open>CreatedAt\<close>/\<open>UpdatedAt\<close> with the
  clock and gives every task the schedule's identifier as \<open>schedule_id\<close>; all of it is
  written back into the model. A task whose identifier is already stored is not inserted
  again: its \<open>schedule_id\<close> is updated. A schedule identifier already stored, or the same
  task identifier twice in the model, is a driver error.
\<close>

definition stamp :: "Time \<Rightarrow> Time \<Rightarrow> Time" where
  "stamp now t = (if IsZero t then now else t)"

fun create_task_rows :: "uuid \<Rightarrow> Time \<Rightarrow> (nat \<Rightarrow> uuid) \<Rightarrow> nat \<Rightarrow> TaskRow list \<Rightarrow> TaskRow list \<times> nat" where
  "create_task_rows sid now ids n [] = ([], n)"
| "create_task_rows sid now ids n (t # ts) =
     (let t' = t\<lparr>TaskRow_ScheduleID := sid,
                 TaskRow_CreatedAt := stamp now (TaskRow_CreatedAt t),
                 TaskRow_UpdatedAt := stamp now (TaskRow_UpdatedAt t)\<rparr>
      in if TaskRow_ID t = uuid_Nil
         then (case create_task_rows sid now ids (Suc n) ts of
                 (ts', n') \<Rightarrow> (t'\<lparr>TaskRow_ID := ids n\<rparr> # ts', n'))
         else (case create_task_rows sid now ids n ts of
                 (ts', n') \<Rightarrow> (t' # ts', n')))"

fun upsert_task :: "TaskRow \<Rightarrow> TaskRow list \<Rightarrow> TaskRow list" where
  "upsert_task t [] = [t]"
| "upsert_task t (x # xs) =
     (if TaskRow_ID x = TaskRow_ID t
      then x\<lparr>TaskRow_ScheduleID := TaskRow_ScheduleID t\<rparr> # xs
      else x # upsert_task t xs)"

definition db_create_schedule :: "ScheduleRow \<Rightarrow> db \<Rightarrow> (db_error + ScheduleRow) \<times> db" where
  "db_create_schedule row d =
     (case db_call d of
        (Some e, d') \<Rightarrow> (Inl e, d')
      | (None, d') \<Rightarrow>
          (let n0 = db_idctr d';
               sid = (if Row_ID row = uuid_Nil then db_idseq d' n0 else Row_ID row);
               n1 = (if Row_ID row = uuid_Nil then Suc n0 else n0)
           in case create_task_rows sid (db_now d') (db_idseq d') n1 (Row_Tasks row) of
                (ts, n2) \<Rightarrow>
                  if sid \<in> set (map Row_ID (db_schedules d')) \<or> \<not> distinct (map TaskRow_ID ts)
                  then (Inl (DriverError 0), d')
                  else
                    (let row' = row\<lparr>Row_ID := sid,
                                     Row_CreatedAt := stamp (db_now d') (Row_CreatedAt row),
                                     Row_UpdatedAt := stamp (db_now d') (Row_UpdatedAt row),
                                     Row_Tasks := ts\<rparr>
                     in (Inr row',
                         d'\<lparr>db_schedules := db_schedules d' @ [row'\<lparr>Row_Tasks := []\<rparr>],
                            db_tasks := foldl (\<lambda>tab t. upsert_task t tab) (db_tasks d') ts,
                            db_idctr := n2\<rparr>))))"

subsection \<open>The schedule repository (\<open>Repository\<close>, package \<open>repository/psql/schedule\<close>)\<close>

text \<open>
  How the repository classifies a failed write: it encodes the error as JSON and decodes
  that into a \<open>GormErr\<close>; a decoding error is returned as it is, number 1062 is
  \<open>ResourceAlreadyExists\<close>, anything else \<open>UnknownError\<close>.
\<close>

fun gorm_number :: "db_error \<Rightarrow> nat option" where
  "gorm_number ErrRecordNotFound = Some 0"
| "gorm_number ErrMissingWhereClause = Some 0"
| "gorm_number (DriverError n) = Some n"
| "gorm_number OpaqueError = None"

definition write_error :: "db_error \<Rightarrow> error" where
  "write_error e =
     (case gorm_number e of
        None \<Rightarrow> JSONError
      | Some n \<Rightarrow> if n = 1062 then AppErrorWithType ResourceAlreadyExists
                  else AppErrorWithType UnknownError)"

definition read_error :: "db_error \<Rightarrow> error" where
  "read_error e =
     (if e = ErrRecordNotFound then AppErrorWithType NotFound
      else AppErrorWithType UnknownError)"

definition Repository_GetScheduleByID :: "uuid \<Rightarrow> db \<Rightarrow> (error + Schedule) \<times> db" where
  "Repository_GetScheduleByID sid d =
     (case db_first_schedule sid d of
        (Inl e, d') \<Rightarrow> (Inl (read_error e), d')
      | (Inr schedule, d') \<Rightarrow> (Inr (toDomainMapper schedule), d'))"

definition Repository_UpdateSchedule :: "uuid \<Rightarrow> updates \<Rightarrow> db \<Rightarrow> (error + Schedule) \<times> db" where
  "Repository_UpdateSchedule sid upd d =
     (case db_first_schedule sid d of
        (Inl e, d1) \<Rightarrow> (Inl (read_error e), d1)
      | (Inr scheduleObj, d1) \<Rightarrow>
          (case db_updates_schedule (Row_ID scheduleObj) upd d1 of
             (Some e, d2) \<Rightarrow> (Inl (write_error e), d2)
           | (None, d2) \<Rightarrow>
               (case db_first_schedule sid d2 of
                  (Inl e, d3) \<Rightarrow> (Inl (GormError e), d3)
                | (Inr scheduleObj', d3) \<Rightarrow> (Inr (toDomainMapper scheduleObj'), d3))))"

definition Repository_UpdateTask :: "uuid \<Rightarrow> updates \<Rightarrow> db \<Rightarrow> (error + Task) \<times> db" where
  "Repository_UpdateTask tid upd d =
     (case db_updates_task tid upd d of
        (Some e, d1) \<Rightarrow> (Inl (AppErrorWithType UnknownError), d1)
      | (None, d1) \<Rightarrow>
          (case db_first_task tid d1 of
             (Inl e, d2) \<Rightarrow> (Inl (GormError e), d2)
           | (Inr taskObj, d2) \<Rightarrow> (Inr (task_toDomainMapper taskObj), d2)))"

definition Repository_Create :: "Schedule \<Rightarrow> db \<Rightarrow> (error + Schedule) \<times> db" where
  "Repository_Create newSchedule d =
     (case db_create_schedule (fromDomainMapper newSchedule) d of
        (Inl e, d') \<Rightarrow> (Inl (write_error e), d')
      | (Inr scheduleModel, d') \<Rightarrow> (Inr (toDomainMapper scheduleModel), d'))"

definition Repository_GetSchedulesInProgressByAssignedUserID ::
    "uuid \<Rightarrow> db \<Rightarrow> (error + Schedule list) \<times> db" where
  "Repository_GetSchedulesInProgressByAssignedUserID uid d =
     (case db_find_in_progress uid d of
        (Inl e, d') \<Rightarrow> (Inl (AppErrorWithType UnknownError), d')
      | (Inr rows, d') \<Rightarrow> (Inr (arrayToDomainMapper rows), d'))"

subsection \<open>The user repository (\<open>GetByID\<close>, package \<open>repository/psql/user\<close>)\<close>

definition UserRepository_GetByID :: "uuid \<Rightarrow> db \<Rightarrow> (error + User) \<times> db" where
  "UserRepository_GetByID uid d =
     (case db_first_user uid d of
        (Inl e, d') \<Rightarrow> (Inl (read_error e), d')
      | (Inr user, d') \<Rightarrow> (Inr user, d'))"

subsection \<open>The schedule use case (\<open>ScheduleUseCase\<close>)\<close>

text \<open>
  Go's type assertions \<open>v, ok := updates[key].(uuid.UUID)\<close> and \<open>.(string)\<close>: they
  succeed only on a value of exactly that dynamic type; a missing key reads as nil and
  fails the assertion.
\<close>

fun assert_uuid :: "dyn option \<Rightarrow> uuid option" where
  "assert_uuid (Some (DUuid u)) = Some u"
| "assert_uuid v = None"

fun assert_string :: "dyn option \<Rightarrow> string option" where
  "assert_string (Some (DString s)) = Some s"
| "assert_string v = None"

definition StartSchedule :: "uuid \<Rightarrow> Time \<Rightarrow> Location \<Rightarrow> db \<Rightarrow> (error + Schedule) \<times> db" where
  "StartSchedule scheduleID timestamp location d =
     (case Repository_GetScheduleByID scheduleID d of
        (Inl err, d1) \<Rightarrow> (Inl err, d1)
      | (Inr schedule, d1) \<Rightarrow>
          if VisitStatus schedule \<noteq> ''upcoming'' then
            (Inl (AppError ValidationError ''schedule is not in 'upcoming' status''), d1)
          else if Before timestamp (From (ScheduledSlot schedule)) then
            (Inl (AppError ValidationError
                    ''cannot start schedule before the scheduled start time''), d1)
          else
            (case Repository_GetSchedulesInProgressByAssignedUserID (AssignedUserID schedule) d1 of
               (Inl err, d2) \<Rightarrow> (Inl err, d2)
             | (Inr schedulesInProgress, d2) \<Rightarrow>
                 if length schedulesInProgress > 0 then
                   (Inl (AppError ValidationError
                      ''cannot start schedule: another schedule is already in progress for this user''),
                    d2)
                 else
                   Repository_UpdateSchedule scheduleID
                     [(''visit_status'', DString ''in_progress''),
                      (''checkin_time'', DTime timestamp),
                      (''checkin_location_lat'', DFloat64Ptr (Lat location)),
                      (''checkin_location_long'', DFloat64Ptr (Long location))] d2))"

text \<open>
  The loop of \<open>EndSchedule\<close> over the task updates: an error of \<open>UpdateTask\<close> is logged
  and the loop goes on with the next task.
\<close>

fun EndSchedule_tasks :: "Task list \<Rightarrow> db \<Rightarrow> db" where
  "EndSchedule_tasks [] d = d"
| "EndSchedule_tasks (task # rest) d =
     (case Repository_UpdateTask (Task_ID task)
             [(''status'', DString (Task_Status task)),
              (''done'', DBoolPtr (Task_Done task)),
              (''feedback'', DStringPtr (Task_Feedback task))] d of
        (Inl err, d') \<Rightarrow> EndSchedule_tasks rest d'
      | (Inr updated, d') \<Rightarrow> EndSchedule_tasks rest d')"

definition EndSchedule ::
    "uuid \<Rightarrow> Time \<Rightarrow> Location \<Rightarrow> Task list \<Rightarrow> db \<Rightarrow> (error + Schedule) \<times> db" where
  "EndSchedule scheduleID timestamp location tasks d =
     (case Repository_GetScheduleByID scheduleID d of
        (Inl err, d1) \<Rightarrow> (Inl err, d1)
      | (Inr schedule, d1) \<Rightarrow>
          if VisitStatus schedule \<noteq> ''in_progress'' then
            (Inl (AppError ValidationError ''schedule is not in 'in_progress' status''), d1)
          else
            (case Repository_UpdateSchedule scheduleID
                    [(''visit_status'', DString ''completed''),
                     (''checkout_time'', DTime timestamp),
                     (''checkout_location_lat'', DFloat64Ptr (Lat location)),
                     (''checkout_location_long'', DFloat64Ptr (Long location))] d1 of
               (Inl err, d2) \<Rightarrow> (Inl err, d2)
             | (Inr updatedSchedule, d2) \<Rightarrow>
                 (Inr updatedSchedule, EndSchedule_tasks tasks d2)))"

definition UpdateTaskStatus ::
    "uuid \<Rightarrow> string \<Rightarrow> bool \<Rightarrow> string \<Rightarrow> db \<Rightarrow> (error + Task) \<times> db" where
  "UpdateTaskStatus taskID status done feedback d =
     Repository_UpdateTask taskID
       [(''Status'', DString status),
        (''Done'', DBool done),
        (''Feedback'', DString feedback)] d"

text \<open>
  The loop of \<open>CreateSchedule\<close> over the tasks. \<open>new_uuid i\<close> is what \<open>uuid.New()\<close> returns
  when the loop calls it for the task at index \<open>i\<close>.
\<close>

fun CreateSchedule_tasks :: "(nat \<Rightarrow> uuid) \<Rightarrow> nat \<Rightarrow> Task list \<Rightarrow> Task list" where
  "CreateSchedule_tasks new_uuid i [] = []"
| "CreateSchedule_tasks new_uuid i (task # rest) =
     task\<lparr>Task_ID := (if Task_ID task = uuid_Nil then new_uuid i else Task_ID task),
          Task_Status := ''pending''\<rparr>
     # CreateSchedule_tasks new_uuid (Suc i) rest"

definition CreateSchedule :: "(nat \<Rightarrow> uuid) \<Rightarrow> Schedule \<Rightarrow> db \<Rightarrow> (error + Schedule) \<times> db" where
  "CreateSchedule new_uuid newSchedule d =
     (case UserRepository_GetByID (ClientUserID newSchedule) d of
        (Inl err, d1) \<Rightarrow> (Inl (AppError NotFound ''client user not found''), d1)
      | (Inr client, d1) \<Rightarrow>
          (case UserRepository_GetByID (AssignedUserID newSchedule) d1 of
             (Inl err, d2) \<Rightarrow> (Inl (AppError NotFound ''assigned user not found''), d2)
           | (Inr assigned, d2) \<Rightarrow>
               Repository_Create
                 (newSchedule\<lparr>VisitStatus := ''upcoming'',
                              Tasks := CreateSchedule_tasks new_uuid 0 (Tasks newSchedule)\<rparr>) d2))"

definition validStatuses :: "string \<Rightarrow> bool" where
  "validStatuses status =
     (status = ''upcoming'' \<or> status = ''in_progress'' \<or> status = ''completed''
      \<or> status = ''cancelled'')"

text \<open>The status block of \<open>UpdateSchedule\<close>: the error it returns, if any.\<close>

definition UpdateSchedule_status :: "Schedule \<Rightarrow> updates \<Rightarrow> error option" where
  "UpdateSchedule_status existingSchedule upd =
     (case assert_string (map_of upd ''visit_status'') of
        None \<Rightarrow> None
      | Some status \<Rightarrow>
          if \<not> validStatuses status then
            Some (AppError ValidationError ''invalid visit status'')
          else if VisitStatus existingSchedule = ''completed'' \<and> status \<noteq> ''completed'' then
            Some (AppError ValidationError ''cannot change status from completed'')
          else if VisitStatus existingSchedule = ''cancelled'' \<and> status \<noteq> ''cancelled'' then
            Some (AppError ValidationError ''cannot change status from cancelled'')
          else None)"

text \<open>
  One user block of \<open>UpdateSchedule\<close> (the function has two, for \<open>client_user_id\<close> and
  for \<open>assigned_user_id\<close>, alike but for the key and the message): the error it returns,
  if any.
\<close>

definition UpdateSchedule_user :: "string \<Rightarrow> string \<Rightarrow> updates \<Rightarrow> db \<Rightarrow> error option \<times> db" where
  "UpdateSchedule_user key msg upd d =
     (case assert_uuid (map_of upd key) of
        None \<Rightarrow> (None, d)
      | Some userID \<Rightarrow>
          (case UserRepository_GetByID userID d of
             (Inl err, d') \<Rightarrow> (Some (AppError NotFound msg), d')
           | (Inr user, d') \<Rightarrow> (None, d')))"

definition UpdateSchedule :: "uuid \<Rightarrow> updates \<Rightarrow> db \<Rightarrow> (error + Schedule) \<times> db" where
  "UpdateSchedule scheduleID upd d =
     (case Repository_GetScheduleByID scheduleID d of
        (Inl err, d1) \<Rightarrow> (Inl (AppError NotFound ''schedule not found''), d1)
      | (Inr existingSchedule, d1) \<Rightarrow>
          (case UpdateSchedule_user ''client_user_id'' ''new client user not found'' upd d1 of
             (Some e, d2) \<Rightarrow> (Inl e, d2)
           | (None, d2) \<Rightarrow>
               (case UpdateSchedule_user ''assigned_user_id'' ''new assigned user not found''
                       upd d2 of
                  (Some e, d3) \<Rightarrow> (Inl e, d3)
                | (None, d3) \<Rightarrow>
                    (case UpdateSchedule_status existingSchedule upd of
                       Some e \<Rightarrow> (Inl e, d3)
                     | None \<Rightarrow> Repository_UpdateSchedule scheduleID upd d3))))"

definition GetScheduleWithClientInfo :: "uuid \<Rightarrow> db \<Rightarrow> (error + Schedule \<times> User option) \<times> db" where
  "GetScheduleWithClientInfo sid d =
     (case Repository_GetScheduleByID sid d of
        (Inl err, d1) \<Rightarrow> (Inl err, d1)
      | (Inr schedule, d1) \<Rightarrow>
          (case UserRepository_GetByID (ClientUserID schedule) d1 of
             (Inl err, d2) \<Rightarrow> (Inr (schedule, None), d2)
           | (Inr client, d2) \<Rightarrow> (Inr (schedule, Some client), d2)))"

subsection \<open>The schedule controller (\<open>Controller\<close>, package \<open>controllers/schedule\<close>)\<close>

text \<open>
  \<open>BindJSON\<close> and \<open>uuid.Parse\<close> are taken by their outcome: a request is either the message
  of the binding error or the bound structure, a path parameter either fails to parse or
  is an identifier. What a controller writes as its response is modelled up to the JSON
  mapping: the error handed to the error handler, or the domain values the response is
  mapped from.
\<close>

record TaskRequest =
  Req_Title :: string
  Req_Description :: string

record CreateScheduleRequest =
  Req_ClientUserID :: uuid
  Req_AssignedUserID :: uuid
  Req_ServiceName :: string
  Req_ScheduledSlot :: ScheduledSlot
  Req_Tasks :: "TaskRequest list"

record UpdateScheduleRequest =
  Upd_ClientUserID :: uuid
  Upd_AssignedUserID :: uuid
  Upd_ServiceName :: string
  Upd_ScheduledSlot :: "ScheduledSlot option"
  Upd_VisitStatus :: string

text \<open>The message \<open>ScheduledSlot 'From' cannot be after 'To'\<close>, which ends in a quote.\<close>

definition from_after_to_message :: string where
  "from_after_to_message = ''ScheduledSlot 'From' cannot be after 'To'' @ [CHR 0x27]"

definition Controller_CreateSchedule ::
    "(nat \<Rightarrow> uuid) \<Rightarrow> string + CreateScheduleRequest \<Rightarrow> db \<Rightarrow> (error + Schedule) \<times> db" where
  "Controller_CreateSchedule new_uuid bound d =
     (case bound of
        Inl msg \<Rightarrow> (Inl (AppError ValidationError msg), d)
      | Inr request \<Rightarrow>
          if Req_ClientUserID request = uuid_Nil then
            (Inl (AppError ValidationError ''ClientUserID is required''), d)
          else if IsZero (From (Req_ScheduledSlot request))
                  \<or> IsZero (To (Req_ScheduledSlot request)) then
            (Inl (AppError ValidationError ''ScheduledSlot (From, To) is required''), d)
          else if After (From (Req_ScheduledSlot request)) (To (Req_ScheduledSlot request)) then
            (Inl (AppError ValidationError from_after_to_message), d)
          else if length (Req_Tasks request) = 0 then
            (Inl (AppError ValidationError ''at least one task is required''), d)
          else
            CreateSchedule new_uuid
              \<lparr> ID = uuid_Nil,
                ClientUserID = Req_ClientUserID request,
                AssignedUserID = Req_AssignedUserID request,
                ServiceName = Req_ServiceName request,
                ScheduledSlot = \<lparr> From = From (Req_ScheduledSlot request),
                                  To = To (Req_ScheduledSlot request) \<rparr>,
                VisitStatus = ''upcoming'',
                CheckinTime = None,
                CheckoutTime = None,
                CheckinLocation = \<lparr> Lat = None, Long = None \<rparr>,
                CheckoutLocation = \<lparr> Lat = None, Long = None \<rparr>,
                Tasks = map (\<lambda>taskReq.
                          \<lparr> Task_ID = uuid_Nil,
                            Task_ScheduleID = uuid_Nil,
                            Task_Title = Req_Title taskReq,
                            Task_Description = Req_Description taskReq,
                            Task_Status = ''pending'',
                            Task_Done = None,
                            Task_Feedback = None,
                            Task_CreatedAt = 0,
                            Task_UpdatedAt = 0 \<rparr>) (Req_Tasks request),
                ServiceNote = None,
                CreatedAt = 0,
                UpdatedAt = 0 \<rparr> d)"

text \<open>The entries \<open>Controller.UpdateSchedule\<close> puts into the field map before it looks at the slot.\<close>

definition Controller_updates :: "UpdateScheduleRequest \<Rightarrow> updates" where
  "Controller_updates request =
     (if Upd_ClientUserID request \<noteq> uuid_Nil
      then [(''client_user_id'', DUuid (Upd_ClientUserID request))] else [])
     @ (if Upd_AssignedUserID request \<noteq> uuid_Nil
        then [(''assigned_user_id'', DUuid (Upd_AssignedUserID request))] else [])
     @ (if Upd_ServiceName request \<noteq> []
        then [(''service_name'', DString (Upd_ServiceName request))] else [])
     @ (if Upd_VisitStatus request \<noteq> []
        then [(''visit_status'', DString (Upd_VisitStatus request))] else [])"

text \<open>The end of \<open>Controller.UpdateSchedule\<close>, from the check that the field map is not empty.\<close>

definition Controller_UpdateSchedule_send ::
    "uuid \<Rightarrow> updates \<Rightarrow> db \<Rightarrow> (error + Schedule \<times> User option) \<times> db" where
  "Controller_UpdateSchedule_send scheduleID upd d =
     (if length upd = 0 then
        (Inl (AppError ValidationError ''No valid fields to update''), d)
      else
        (case UpdateSchedule scheduleID upd d of
           (Inl err, d1) \<Rightarrow> (Inl err, d1)
         | (Inr updatedSchedule, d1) \<Rightarrow>
             (case GetScheduleWithClientInfo scheduleID d1 of
                (Inl err, d2) \<Rightarrow> (Inr (updatedSchedule, None), d2)
              | (Inr (schedule, client), d2) \<Rightarrow> (Inr (updatedSchedule, client), d2))))"

definition Controller_UpdateSchedule ::
    "uuid option \<Rightarrow> string + UpdateScheduleRequest \<Rightarrow> db
       \<Rightarrow> (error + Schedule \<times> User option) \<times> db" where
  "Controller_UpdateSchedule parsed bound d =
     (case parsed of
        None \<Rightarrow> (Inl (AppError ValidationError ''schedule id is invalid''), d)
      | Some scheduleID \<Rightarrow>
          (case GetScheduleWithClientInfo scheduleID d of
             (Inl err, d1) \<Rightarrow> (Inl err, d1)
           | (Inr found, d1) \<Rightarrow>
               (case bound of
                  Inl msg \<Rightarrow> (Inl (AppError ValidationError msg), d1)
                | Inr request \<Rightarrow>
                    (case Upd_ScheduledSlot request of
                       None \<Rightarrow>
                         Controller_UpdateSchedule_send scheduleID (Controller_updates request) d1
                     | Some slot \<Rightarrow>
                         if IsZero (From slot) \<or> IsZero (To slot) then
                           (Inl (AppError ValidationError
                              ''Both From and To dates must be provided for ScheduledSlot''), d1)
                         else if After (From slot) (To slot) then
                           (Inl (AppError ValidationError from_after_to_message), d1)
                         else
                           Controller_UpdateSchedule_send scheduleID
                             (Controller_updates request
                              @ [(''scheduled_slot_from'', DTime (From slot)),
                                 (''scheduled_slot_to'', DTime (To slot))]) d1))))"

subsection \<open>Notions the properties are stated with\<close>

text \<open>No table of the store differs between two states: nothing was written.\<close>

definition store_unchanged :: "db \<Rightarrow> db \<Rightarrow> bool" where
  "store_unchanged d d' =
     (db_schedules d' = db_schedules d \<and> db_tasks d' = db_tasks d \<and> db_users d' = db_users d)"

text \<open>The stored \<open>visit_status\<close> of a schedule, if the schedule is stored.\<close>

definition stored_status :: "db \<Rightarrow> uuid \<Rightarrow> string option" where
  "stored_status d sid = map_option Row_VisitStatus (find (\<lambda>r. Row_ID r = sid) (db_schedules d))"

text \<open>The kind of error of a result, if it is an application error.\<close>

fun result_error_type :: "error + 'a \<Rightarrow> ErrorType option" where
  "result_error_type (Inl e) = error_type e"
| "result_error_type (Inr x) = None"

text \<open>Every stored schedule has \<open>scheduled_slot_from \<le> scheduled_slot_to\<close>.\<close>

definition slots_ordered :: "db \<Rightarrow> bool" where
  "slots_ordered d = list_all (\<lambda>r. Row_ScheduledSlotFrom r \<le> Row_ScheduledSlotTo r) (db_schedules d)"

text \<open>
  What an update does to a row it reaches: the assignments of the field map, after the
  stamp of the clock on \<open>updated_at\<close> unless the map sets it.
\<close>

definition touched ::
    "updates \<Rightarrow> Time \<Rightarrow> (ScheduleRow \<Rightarrow> ScheduleRow) \<Rightarrow> ScheduleRow \<Rightarrow> ScheduleRow" where
  "touched upd now f r = (if sets_updated_at upd then f r else f (r\<lparr>Row_UpdatedAt := now\<rparr>))"

subsection \<open>An example store\<close>

text \<open>
  Three users; four schedules, all planned for the slot from 1000 to 3000: schedule 10 is
  upcoming and schedule 20 completed, both assigned to user 200; schedule 30 is in progress
  and schedule 40 upcoming, both assigned to user 300. Schedule 10 has task 11, schedule 30
  has task 31. No database call is scripted to fail.
\<close>

definition example_user :: "uuid \<Rightarrow> User" where
  "example_user uid =
     \<lparr> User_ID = uid, UserName = ''user'', Email = ''user@example.com'', FirstName = ''Ada'',
       LastName = ''Doe'', User_Status = True, HashPassword = [], Role = ''caregiver'',
       ProfilePicture = [],
       User_Location = \<lparr> HouseNumber = ''1'', Street = ''Main'', City = ''Town'', State = ''ST'',
                          Pincode = ''00000'', User_Lat = 0, User_Long = 0 \<rparr>,
       User_CreatedAt = 1, User_UpdatedAt = 1 \<rparr>"

definition example_row :: "uuid \<Rightarrow> uuid \<Rightarrow> string \<Rightarrow> ScheduleRow" where
  "example_row sid assigned status =
     \<lparr> Row_ID = sid, Row_ClientUserID = 100, Row_AssignedUserID = assigned,
       Row_ServiceName = ''Home care'', Row_ScheduledSlotFrom = 1000,
       Row_ScheduledSlotTo = 3000, Row_VisitStatus = status, Row_CheckinTime = None,
       Row_CheckoutTime = None, Row_CheckinLocationLat = None, Row_CheckinLocationLong = None,
       Row_CheckoutLocationLat = None, Row_CheckoutLocationLong = None, Row_Tasks = [],
       Row_ServiceNote = None, Row_CreatedAt = 1, Row_UpdatedAt = 1 \<rparr>"

definition example_task_row :: "uuid \<Rightarrow> uuid \<Rightarrow> TaskRow" where
  "example_task_row tid sid =
     \<lparr> TaskRow_ID = tid, TaskRow_ScheduleID = sid, TaskRow_Title = ''Give medication'',
       TaskRow_Description = [], TaskRow_Status = ''pending'', TaskRow_Done = None,
       TaskRow_Feedback = None, TaskRow_CreatedAt = 1, TaskRow_UpdatedAt = 1 \<rparr>"

definition example_db :: db where
  "example_db =
     \<lparr> db_schedules = [example_row 10 200 ''upcoming'', example_row 20 200 ''completed'',
                       example_row 30 300 ''in_progress'', example_row 40 300 ''upcoming''],
       db_tasks = [example_task_row 11 10, example_task_row 31 30],
       db_users = [example_user 100, example_user 200, example_user 300],
       db_faults = [],
       db_now = 2000,
       db_idseq = (\<lambda>n. 500 + n),
       db_idctr = 0 \<rparr>"

definition example_location :: Location where
  "example_location = \<lparr> Lat = Some 3, Long = Some 4 \<rparr>"

text \<open>A schedule of the example store as the repository returns it, its tasks loaded.\<close>

definition example_schedule :: "uuid \<Rightarrow> uuid \<Rightarrow> string \<Rightarrow> Schedule" where
  "example_schedule sid assigned status =
     toDomainMapper (preload_tasks (db_tasks example_db) (example_row sid assigned status))"

text \<open>
  A schedule to create, with one task that has no identifier yet and arrives with the
  status \<open>done\<close>; what \<open>uuid.New()\<close> returns; and a task update as \<open>EndSchedule\<close> takes it.
\<close>

definition example_new_schedule :: "uuid \<Rightarrow> uuid \<Rightarrow> Schedule" where
  "example_new_schedule client assigned =
     \<lparr> ID = uuid_Nil, ClientUserID = client, AssignedUserID = assigned,
       ServiceName = ''Home care'', ScheduledSlot = \<lparr> From = 4000, To = 6000 \<rparr>,
       VisitStatus = ''completed'', CheckinTime = None, CheckoutTime = None,
       CheckinLocation = \<lparr> Lat = None, Long = None \<rparr>,
       CheckoutLocation = \<lparr> Lat = None, Long = None \<rparr>,
       Tasks = [\<lparr> Task_ID = uuid_Nil, Task_ScheduleID = uuid_Nil,
                  Task_Title = ''Give medication'', Task_Description = [],
                  Task_Status = ''done'', Task_Done = None, Task_Feedback = None,
                  Task_CreatedAt = 0, Task_UpdatedAt = 0 \<rparr>],
       ServiceNote = None, CreatedAt = 0, UpdatedAt = 0 \<rparr>"

definition example_new_uuid :: "nat \<Rightarrow> uuid" where
  "example_new_uuid i = 700 + i"

definition example_task_update :: "uuid \<Rightarrow> Task" where
  "example_task_update tid =
     \<lparr> Task_ID = tid, Task_ScheduleID = 30, Task_Title = ''Give medication'',
       Task_Description = [], Task_Status = ''completed'', Task_Done = Some True,
       Task_Feedback = Some ''taken'', Task_CreatedAt = 0, Task_UpdatedAt = 0 \<rparr>"

text \<open>Requests as the controller binds them: to create a schedule, and to move a slot.\<close>

definition example_create_request :: "Time \<Rightarrow> Time \<Rightarrow> CreateScheduleRequest" where
  "example_create_request from to =
     \<lparr> Req_ClientUserID = 100, Req_AssignedUserID = 200, Req_ServiceName = ''Home care'',
       Req_ScheduledSlot = \<lparr> From = from, To = to \<rparr>,
       Req_Tasks = [\<lparr> Req_Title = ''Give medication'', Req_Description = [] \<rparr>] \<rparr>"

definition example_update_request :: "Time \<Rightarrow> Time \<Rightarrow> UpdateScheduleRequest" where
  "example_update_request from to =
     \<lparr> Upd_ClientUserID = uuid_Nil, Upd_AssignedUserID = uuid_Nil, Upd_ServiceName = [],
       Upd_ScheduledSlot = Some \<lparr> From = from, To = to \<rparr>, Upd_VisitStatus = [] \<rparr>"

section \<open>Properties\<close>

subsection \<open>Reading the store writes nothing\<close>

lemma store_unchanged_refl: "store_unchanged d d"
  by (simp add: store_unchanged_def)

lemma store_unchanged_trans:
  "store_unchanged d d1 \<Longrightarrow> store_unchanged d1 d2 \<Longrightarrow> store_unchanged d d2"
  by (simp add: store_unchanged_def)

lemma db_call_unchanged: "db_call d = (f, d') \<Longrightarrow> store_unchanged d d'"
  by (auto simp: db_call_def store_unchanged_def split: list.splits)

lemma db_first_schedule_unchanged: "db_first_schedule sid d = (r, d') \<Longrightarrow> store_unchanged d d'"
  by (auto simp: db_first_schedule_def split: prod.splits option.splits dest: db_call_unchanged)

lemma db_first_task_unchanged: "db_first_task tid d = (r, d') \<Longrightarrow> store_unchanged d d'"
  by (auto simp: db_first_task_def split: prod.splits option.splits dest: db_call_unchanged)

lemma db_first_user_unchanged: "db_first_user uid d = (r, d') \<Longrightarrow> store_unchanged d d'"
  by (auto simp: db_first_user_def split: prod.splits option.splits dest: db_call_unchanged)

lemma db_find_in_progress_unchanged:
  "db_find_in_progress uid d = (r, d') \<Longrightarrow> store_unchanged d d'"
  by (auto simp: db_find_in_progress_def split: prod.splits option.splits
           dest: db_call_unchanged)

lemma GetScheduleByID_unchanged:
  "Repository_GetScheduleByID sid d = (r, d') \<Longrightarrow> store_unchanged d d'"
  by (auto simp: Repository_GetScheduleByID_def split: prod.splits sum.splits
           dest: db_first_schedule_unchanged)

lemma GetByID_unchanged:
  "UserRepository_GetByID uid d = (r, d') \<Longrightarrow> store_unchanged d d'"
  by (auto simp: UserRepository_GetByID_def split: prod.splits sum.splits
           dest: db_first_user_unchanged)

lemma GetSchedulesInProgress_unchanged:
  "Repository_GetSchedulesInProgressByAssignedUserID uid d = (r, d') \<Longrightarrow> store_unchanged d d'"
  by (auto simp: Repository_GetSchedulesInProgressByAssignedUserID_def
           split: prod.splits sum.splits dest: db_find_in_progress_unchanged)

subsection \<open>The errors of the repository\<close>





subsection \<open>What the repository's update does\<close>

lemma find_Row_ID: "find (\<lambda>r. Row_ID r = sid) rows = Some r \<Longrightarrow> Row_ID r = sid"
  by (induction rows) (auto split: if_splits)

lemma find_update_rows:
  assumes "\<And>r. Row_ID (g r) = Row_ID r"
  shows "find (\<lambda>r. Row_ID r = sid) (map (\<lambda>r. if Row_ID r = sid then g r else r) rows)
           = map_option g (find (\<lambda>r. Row_ID r = sid) rows)"
  by (induction rows) (auto simp: assms)

lemma db_first_schedule_Inr:
  assumes "db_first_schedule sid d = (Inr r, d')"
  shows "\<exists>r0. find (\<lambda>r. Row_ID r = sid) (db_schedules d) = Some r0
              \<and> r = preload_tasks (db_tasks d) r0"
    and "store_unchanged d d'" and "db_now d' = db_now d"
  using assms
  by (auto simp: db_first_schedule_def store_unchanged_def db_call_def
           split: prod.splits option.splits list.splits)

lemma db_updates_schedule_None:
  assumes "db_updates_schedule sid upd d = (None, d')"
  shows "\<exists>f. assignments schedule_column upd = Some f
            \<and> db_schedules d'
                = map (\<lambda>r. if Row_ID r = sid then touched upd (db_now d) f r else r)
                    (db_schedules d)"
    and "db_tasks d' = db_tasks d" and "db_users d' = db_users d" and "db_now d' = db_now d"
  using assms
  by (auto simp: db_updates_schedule_def touched_def db_call_def
           split: prod.splits option.splits if_splits list.splits)

lemma db_updates_schedule_Some:
  assumes "db_updates_schedule sid upd d = (Some e, d')"
  shows "store_unchanged d d'"
  using assms
  by (auto simp: db_updates_schedule_def store_unchanged_def db_call_def
           split: prod.splits option.splits if_splits list.splits)

lemma Repository_UpdateSchedule_success:
  assumes "Repository_UpdateSchedule sid upd d = (Inr s', d')"
  shows "\<exists>f r'. assignments schedule_column upd = Some f
          \<and> db_schedules d'
              = map (\<lambda>r. if Row_ID r = sid then touched upd (db_now d) f r else r)
                  (db_schedules d)
          \<and> db_tasks d' = db_tasks d \<and> db_users d' = db_users d
          \<and> find (\<lambda>r. Row_ID r = sid) (db_schedules d') = Some r'
          \<and> s' = toDomainMapper (preload_tasks (db_tasks d) r')"
proof -
  from assms obtain r1 d1 d2 r3 where
    a: "db_first_schedule sid d = (Inr r1, d1)"
    and b: "db_updates_schedule (Row_ID r1) upd d1 = (None, d2)"
    and c: "db_first_schedule sid d2 = (Inr r3, d')"
    and s: "s' = toDomainMapper r3"
    by (auto simp: Repository_UpdateSchedule_def split: prod.splits sum.splits option.splits)
  from db_first_schedule_Inr[OF a] obtain r0 where
    r0: "find (\<lambda>r. Row_ID r = sid) (db_schedules d) = Some r0"
      "r1 = preload_tasks (db_tasks d) r0"
    and u1: "store_unchanged d d1" and n1: "db_now d1 = db_now d" by blast
  have id1: "Row_ID r1 = sid" using r0 by (auto simp: preload_tasks_def dest: find_Row_ID)
  from db_updates_schedule_None[OF b] obtain f where
    f: "assignments schedule_column upd = Some f"
      "db_schedules d2
         = map (\<lambda>r. if Row_ID r = sid then touched upd (db_now d1) f r else r) (db_schedules d1)"
    and t2: "db_tasks d2 = db_tasks d1" "db_users d2 = db_users d1" using id1 by auto
  from db_first_schedule_Inr[OF c] obtain r' where
    r': "find (\<lambda>r. Row_ID r = sid) (db_schedules d2) = Some r'"
      "r3 = preload_tasks (db_tasks d2) r'"
    and u3: "store_unchanged d2 d'" by blast
  show ?thesis
    using f t2 r' u1 u3 n1 s by (auto simp: store_unchanged_def)
qed

lemma Repository_UpdateSchedule_failure:
  assumes "Repository_UpdateSchedule sid upd d = (Inl e, d')"
    and "error_type e = Some NotFound \<or> error_type e = Some ValidationError"
  shows "store_unchanged d d'"
  using assms
  apply (auto simp: Repository_UpdateSchedule_def read_error_def
              split: prod.splits sum.splits option.splits if_splits
              dest: db_first_schedule_unchanged db_updates_schedule_Some)
     apply (auto simp: write_error_def split: option.splits if_splits)
  done

lemma start_assignments:
  "assignments schedule_column
     [(''visit_status'', DString st), (''checkin_time'', DTime ts),
      (''checkin_location_lat'', DFloat64Ptr la), (''checkin_location_long'', DFloat64Ptr lo)]
   = Some (\<lambda>r. r\<lparr>Row_VisitStatus := st, Row_CheckinTime := Some ts,
                   Row_CheckinLocationLat := la, Row_CheckinLocationLong := lo\<rparr>)"
  by (simp add: schedule_column_def)

lemma end_assignments:
  "assignments schedule_column
     [(''visit_status'', DString st), (''checkout_time'', DTime ts),
      (''checkout_location_lat'', DFloat64Ptr la), (''checkout_location_long'', DFloat64Ptr lo)]
   = Some (\<lambda>r. r\<lparr>Row_VisitStatus := st, Row_CheckoutTime := Some ts,
                   Row_CheckoutLocationLat := la, Row_CheckoutLocationLong := lo\<rparr>)"
  by (simp add: schedule_column_def)

lemma Repository_UpdateSchedule_start:
  assumes "Repository_UpdateSchedule sid
     [(''visit_status'', DString st), (''checkin_time'', DTime ts),
      (''checkin_location_lat'', DFloat64Ptr (Lat loc)),
      (''checkin_location_long'', DFloat64Ptr (Long loc))] d = (Inr s', d')"
  shows "VisitStatus s' = st \<and> CheckinTime s' = Some ts \<and> CheckinLocation s' = loc
         \<and> stored_status d' sid = Some st"
proof -
  let ?upd = "[(''visit_status'', DString st), (''checkin_time'', DTime ts),
      (''checkin_location_lat'', DFloat64Ptr (Lat loc)),
      (''checkin_location_long'', DFloat64Ptr (Long loc))]"
  let ?f = "\<lambda>r. r\<lparr>Row_VisitStatus := st, Row_CheckinTime := Some ts,
                   Row_CheckinLocationLat := Lat loc, Row_CheckinLocationLong := Long loc\<rparr>"
  from Repository_UpdateSchedule_success[OF assms] obtain f r' where
    f: "assignments schedule_column ?upd = Some f"
    and rows: "db_schedules d'
       = map (\<lambda>r. if Row_ID r = sid then touched ?upd (db_now d) f r else r) (db_schedules d)"
    and r': "find (\<lambda>r. Row_ID r = sid) (db_schedules d') = Some r'"
    and s': "s' = toDomainMapper (preload_tasks (db_tasks d) r')" by blast
  have feq: "f = ?f" using f unfolding start_assignments by simp
  have "find (\<lambda>r. Row_ID r = sid) (db_schedules d')
          = map_option (touched ?upd (db_now d) f)
              (find (\<lambda>r. Row_ID r = sid) (db_schedules d))"
    unfolding rows by (rule find_update_rows) (simp add: feq touched_def)
  with r' obtain r0 where "r' = touched ?upd (db_now d) f r0" by auto
  then show ?thesis using s' r' feq
    by (simp add: touched_def toDomainMapper_def preload_tasks_def stored_status_def
          sets_updated_at_def)
qed

lemma Repository_UpdateSchedule_end:
  assumes "Repository_UpdateSchedule sid
     [(''visit_status'', DString st), (''checkout_time'', DTime ts),
      (''checkout_location_lat'', DFloat64Ptr (Lat loc)),
      (''checkout_location_long'', DFloat64Ptr (Long loc))] d = (Inr s', d')"
  shows "VisitStatus s' = st \<and> CheckoutTime s' = Some ts \<and> CheckoutLocation s' = loc
         \<and> stored_status d' sid = Some st"
proof -
  let ?upd = "[(''visit_status'', DString st), (''checkout_time'', DTime ts),
      (''checkout_location_lat'', DFloat64Ptr (Lat loc)),
      (''checkout_location_long'', DFloat64Ptr (Long loc))]"
  let ?f = "\<lambda>r. r\<lparr>Row_VisitStatus := st, Row_CheckoutTime := Some ts,
                   Row_CheckoutLocationLat := Lat loc, Row_CheckoutLocationLong := Long loc\<rparr>"
  from Repository_UpdateSchedule_success[OF assms] obtain f r' where
    f: "assignments schedule_column ?upd = Some f"
    and rows: "db_schedules d'
       = map (\<lambda>r. if Row_ID r = sid then touched ?upd (db_now d) f r else r) (db_schedules d)"
    and r': "find (\<lambda>r. Row_ID r = sid) (db_schedules d') = Some r'"
    and s': "s' = toDomainMapper (preload_tasks (db_tasks d) r')" by blast
  have feq: "f = ?f" using f unfolding end_assignments by simp
  have "find (\<lambda>r. Row_ID r = sid) (db_schedules d')
          = map_option (touched ?upd (db_now d) f)
              (find (\<lambda>r. Row_ID r = sid) (db_schedules d))"
    unfolding rows by (rule find_update_rows) (simp add: feq touched_def)
  with r' obtain r0 where "r' = touched ?upd (db_now d) f r0" by auto
  then show ?thesis using s' r' feq
    by (simp add: touched_def toDomainMapper_def preload_tasks_def stored_status_def
          sets_updated_at_def)
qed

subsection \<open>Evaluating the model on the example store\<close>

lemmas example_defs =
  example_db_def example_row_def example_task_row_def example_user_def example_location_def
  example_schedule_def example_new_schedule_def example_new_uuid_def example_task_update_def
  example_create_request_def example_update_request_def

lemmas store_defs =
  Repository_GetScheduleByID_def Repository_UpdateSchedule_def Repository_UpdateTask_def
  Repository_Create_def Repository_GetSchedulesInProgressByAssignedUserID_def
  UserRepository_GetByID_def
  db_first_schedule_def db_first_task_def db_first_user_def db_find_in_progress_def
  db_updates_schedule_def db_updates_task_def db_create_schedule_def
  db_call_def preload_tasks_def
  toDomainMapper_def task_toDomainMapper_def arrayToDomainMapper_def
  fromDomainMapper_def task_fromDomainMapper_def
  schedule_column_def task_column_def sets_updated_at_def uuid_Nil_def stamp_def
  read_error_def write_error_def IsZero_def Before_def After_def
  uuid_of_string_def hex_digit_def

lemma example_GetScheduleByID_10:
  "Repository_GetScheduleByID 10 example_db = (Inr (example_schedule 10 200 ''upcoming''), example_db)"
  by (simp add: example_defs store_defs)

lemma example_GetScheduleByID_20:
  "Repository_GetScheduleByID 20 example_db = (Inr (example_schedule 20 200 ''completed''), example_db)"
  by (simp add: example_defs store_defs)

lemma example_GetScheduleByID_30:
  "Repository_GetScheduleByID 30 example_db = (Inr (example_schedule 30 300 ''in_progress''), example_db)"
  by (simp add: example_defs store_defs)

lemma example_GetScheduleByID_40:
  "Repository_GetScheduleByID 40 example_db = (Inr (example_schedule 40 300 ''upcoming''), example_db)"
  by (simp add: example_defs store_defs)

lemma example_schedule_fields:
  "VisitStatus (example_schedule sid assigned status) = status"
  "AssignedUserID (example_schedule sid assigned status) = assigned"
  "ClientUserID (example_schedule sid assigned status) = 100"
  "ID (example_schedule sid assigned status) = sid"
  "From (ScheduledSlot (example_schedule sid assigned status)) = 1000"
  "To (ScheduledSlot (example_schedule sid assigned status)) = 3000"
  by (simp_all add: example_defs store_defs)

subsection \<open>Starting a visit: the temporal check\<close>



subsection \<open>Starting a visit: one visit in progress per caregiver\<close>

lemma example_in_progress_200:
  "Repository_GetSchedulesInProgressByAssignedUserID (AssignedUserID (example_schedule 10 200 ''upcoming'')) example_db
     = (Inr [], example_db)"
  by (simp add: example_defs store_defs)

lemma example_in_progress_300:
  "Repository_GetSchedulesInProgressByAssignedUserID (AssignedUserID (example_schedule 40 300 ''upcoming'')) example_db
     = (Inr [example_schedule 30 300 ''in_progress''], example_db)"
  by (simp add: example_defs store_defs)

lemma example_start_update:
  "Repository_UpdateSchedule 10
     [(''visit_status'', DString ''in_progress''),
      (''checkin_time'', DTime 1500),
      (''checkin_location_lat'', DFloat64Ptr (Lat example_location)),
      (''checkin_location_long'', DFloat64Ptr (Long example_location))] example_db
   = (Inr ((example_schedule 10 200 ''in_progress'')
             \<lparr>CheckinTime := Some 1500, CheckinLocation := example_location, UpdatedAt := 2000\<rparr>),
      example_db\<lparr>db_schedules :=
         [(example_row 10 200 ''in_progress'')
            \<lparr>Row_CheckinTime := Some 1500, Row_CheckinLocationLat := Some 3,
             Row_CheckinLocationLong := Some 4, Row_UpdatedAt := 2000\<rparr>,
          example_row 20 200 ''completed'', example_row 30 300 ''in_progress'',
          example_row 40 300 ''upcoming'']\<rparr>)"
  by (simp add: example_defs store_defs)

text \<open>
  C3. For a stored schedule in \<open>upcoming\<close> status, started at a timestamp not before
  \<open>scheduledSlot.from\<close>: if the store reports at least one schedule in progress for the
  schedule's assigned user, \<open>StartSchedule\<close> fails with the validation error "another
  schedule is already in progress for this user"; if the store reports none and the
  store's update succeeds, \<open>StartSchedule\<close> succeeds with what the store returns, and
  that schedule, as the stored one, has \<open>visitStatus = in_progress\<close>,
  \<open>checkinTime = timestamp\<close> and \<open>checkinLocation = location\<close>.
\<close>

theorem StartSchedule_single_occupancy:
  assumes "Repository_GetScheduleByID sid d = (Inr s, d1)"
    and "VisitStatus s = ''upcoming''"
    and "\<not> ts < From (ScheduledSlot s)"
    and "Repository_GetSchedulesInProgressByAssignedUserID (AssignedUserID s) d1
           = (Inr inProgress, d2)"
  shows "(inProgress \<noteq> [] \<longrightarrow>
            StartSchedule sid ts loc d
              = (Inl (AppError ValidationError
                   ''cannot start schedule: another schedule is already in progress for this user''),
                 d2))
       \<and> (inProgress = []
            \<and> Repository_UpdateSchedule sid
                 [(''visit_status'', DString ''in_progress''),
                  (''checkin_time'', DTime ts),
                  (''checkin_location_lat'', DFloat64Ptr (Lat loc)),
                  (''checkin_location_long'', DFloat64Ptr (Long loc))] d2 = (Inr s', d3)
          \<longrightarrow> StartSchedule sid ts loc d = (Inr s', d3)
              \<and> VisitStatus s' = ''in_progress''
              \<and> CheckinTime s' = Some ts
              \<and> CheckinLocation s' = loc
              \<and> stored_status d3 sid = Some ''in_progress'')"
proof (intro conjI impI)
  assume "inProgress \<noteq> []"
  with assms show "StartSchedule sid ts loc d
              = (Inl (AppError ValidationError
                   ''cannot start schedule: another schedule is already in progress for this user''),
                 d2)"
    by (simp add: StartSchedule_def Before_def)
next
  assume h: "inProgress = []
            \<and> Repository_UpdateSchedule sid
                 [(''visit_status'', DString ''in_progress''),
                  (''checkin_time'', DTime ts),
                  (''checkin_location_lat'', DFloat64Ptr (Lat loc)),
                  (''checkin_location_long'', DFloat64Ptr (Long loc))] d2 = (Inr s', d3)"
  with assms show "StartSchedule sid ts loc d = (Inr s', d3)"
    by (simp add: StartSchedule_def Before_def)
  from h Repository_UpdateSchedule_start[of sid "''in_progress''" ts loc d2 s' d3]
  show "VisitStatus s' = ''in_progress''" "CheckinTime s' = Some ts" "CheckinLocation s' = loc"
    "stored_status d3 sid = Some ''in_progress''"
    by simp_all
qed

theorem StartSchedule_single_occupancy_witness:
  "Repository_GetScheduleByID 40 example_db = (Inr (example_schedule 40 300 ''upcoming''), example_db)
   \<and> Repository_GetSchedulesInProgressByAssignedUserID 300 example_db
        = (Inr [example_schedule 30 300 ''in_progress''], example_db)
   \<and> StartSchedule 40 1500 example_location example_db
        = (Inl (AppError ValidationError
             ''cannot start schedule: another schedule is already in progress for this user''),
           example_db)
   \<and> Repository_GetScheduleByID 10 example_db = (Inr (example_schedule 10 200 ''upcoming''), example_db)
   \<and> Repository_GetSchedulesInProgressByAssignedUserID 200 example_db = (Inr [], example_db)
   \<and> StartSchedule 10 1500 example_location example_db
        = (Inr ((example_schedule 10 200 ''in_progress'')
             \<lparr>CheckinTime := Some 1500, CheckinLocation := example_location, UpdatedAt := 2000\<rparr>),
      example_db\<lparr>db_schedules :=
         [(example_row 10 200 ''in_progress'')
            \<lparr>Row_CheckinTime := Some 1500, Row_CheckinLocationLat := Some 3,
             Row_CheckinLocationLong := Some 4, Row_UpdatedAt := 2000\<rparr>,
          example_row 20 200 ''completed'', example_row 30 300 ''in_progress'',
          example_row 40 300 ''upcoming'']\<rparr>)
   \<and> stored_status (snd (StartSchedule 10 1500 example_location example_db)) 10 = Some ''in_progress''"
  using StartSchedule_single_occupancy [OF example_GetScheduleByID_40 _ _ example_in_progress_300,
          of 1500 example_location]
    StartSchedule_single_occupancy [OF example_GetScheduleByID_10 _ _ example_in_progress_200,
          of 1500 example_location, OF _ _]
    example_start_update
    example_in_progress_200 example_in_progress_300
  by (simp add: example_schedule_fields example_GetScheduleByID_10 example_GetScheduleByID_40)

subsection \<open>A rejected mutation writes nothing\<close>

lemma db_create_schedule_failure:
  "db_create_schedule row d = (Inl e, d') \<Longrightarrow> store_unchanged d d'"
  by (auto simp: db_create_schedule_def store_unchanged_def db_call_def Let_def
           split: prod.splits option.splits list.splits if_splits)

lemma Repository_Create_failure:
  "Repository_Create s d = (Inl e, d') \<Longrightarrow> store_unchanged d d' \<and> error_type e \<noteq> Some NotFound"
  by (auto simp: Repository_Create_def write_error_def split: prod.splits sum.splits option.splits if_splits
           dest: db_create_schedule_failure)

lemma CreateSchedule_NotFound_unchanged:
  assumes "result_error_type (fst (CreateSchedule new_uuid newSchedule d)) = Some NotFound"
  shows "store_unchanged d (snd (CreateSchedule new_uuid newSchedule d))"
proof -
  obtain r1 d1 where c: "UserRepository_GetByID (ClientUserID newSchedule) d = (r1, d1)"
    by (cases "UserRepository_GetByID (ClientUserID newSchedule) d")
  obtain r2 d2 where a: "UserRepository_GetByID (AssignedUserID newSchedule) d1 = (r2, d2)"
    by (cases "UserRepository_GetByID (AssignedUserID newSchedule) d1")
  have u1: "store_unchanged d d1" using c by (rule GetByID_unchanged)
  have u2: "store_unchanged d1 d2" using a by (rule GetByID_unchanged)
  show ?thesis
  proof (cases r1)
    case Inl
    with c u1 show ?thesis by (simp add: CreateSchedule_def)
  next
    case r1: (Inr x)
    show ?thesis
    proof (cases r2)
      case Inl
      with c a r1 u1 u2 show ?thesis by (auto simp: CreateSchedule_def intro: store_unchanged_trans)
    next
      case r2: (Inr y)
      let ?s = "newSchedule\<lparr>VisitStatus := ''upcoming'',
                              Tasks := CreateSchedule_tasks new_uuid 0 (Tasks newSchedule)\<rparr>"
      obtain r3 d3 where cr: "Repository_Create ?s d2 = (r3, d3)"
        by (cases "Repository_Create ?s d2")
      have eq: "CreateSchedule new_uuid newSchedule d = (r3, d3)"
        using c a r1 r2 cr by (simp add: CreateSchedule_def)
      show ?thesis
      proof (cases r3)
        case (Inl e)
        with cr have "store_unchanged d2 d3" by (auto dest: Repository_Create_failure)
        with u1 u2 eq show ?thesis by (auto intro: store_unchanged_trans)
      next
        case (Inr z)
        with assms eq show ?thesis by simp
      qed
    qed
  qed
qed

lemma StartSchedule_failure_unchanged:
  assumes "result_error_type (fst (StartSchedule sid ts loc d)) = Some ValidationError
           \<or> result_error_type (fst (StartSchedule sid ts loc d)) = Some NotFound"
  shows "store_unchanged d (snd (StartSchedule sid ts loc d))"
proof -
  obtain r1 d1 where g: "Repository_GetScheduleByID sid d = (r1, d1)"
    by (cases "Repository_GetScheduleByID sid d")
  have u1: "store_unchanged d d1" using g by (rule GetScheduleByID_unchanged)
  show ?thesis
  proof (cases r1)
    case Inl
    with g u1 show ?thesis by (simp add: StartSchedule_def)
  next
    case r1: (Inr s)
    obtain r2 d2 where
      occ: "Repository_GetSchedulesInProgressByAssignedUserID (AssignedUserID s) d1 = (r2, d2)"
      by (cases "Repository_GetSchedulesInProgressByAssignedUserID (AssignedUserID s) d1")
    have u2: "store_unchanged d1 d2" using occ by (rule GetSchedulesInProgress_unchanged)
    let ?upd = "[(''visit_status'', DString ''in_progress''),
                      (''checkin_time'', DTime ts),
                      (''checkin_location_lat'', DFloat64Ptr (Lat loc)),
                      (''checkin_location_long'', DFloat64Ptr (Long loc))]"
    obtain r3 d3 where up: "Repository_UpdateSchedule sid ?upd d2 = (r3, d3)"
      by (cases "Repository_UpdateSchedule sid ?upd d2")
    consider (status) "VisitStatus s \<noteq> ''upcoming''"
      | (early) "VisitStatus s = ''upcoming''" "Before ts (From (ScheduledSlot s))"
      | (occerr) e where "VisitStatus s = ''upcoming''" "\<not> Before ts (From (ScheduledSlot s))" "r2 = Inl e"
      | (busy) xs where "VisitStatus s = ''upcoming''" "\<not> Before ts (From (ScheduledSlot s))" "r2 = Inr xs" "xs \<noteq> []"
      | (update) "VisitStatus s = ''upcoming''" "\<not> Before ts (From (ScheduledSlot s))" "r2 = Inr []"
      by (cases r2) auto
    then show ?thesis
    proof cases
      case status
      with g r1 u1 show ?thesis by (simp add: StartSchedule_def)
    next
      case early
      with g r1 u1 show ?thesis by (simp add: StartSchedule_def)
    next
      case occerr
      with g r1 occ u1 u2 show ?thesis by (auto simp: StartSchedule_def intro: store_unchanged_trans)
    next
      case busy
      with g r1 occ u1 u2 show ?thesis by (auto simp: StartSchedule_def intro: store_unchanged_trans)
    next
      case update
      with g r1 occ up have eq: "StartSchedule sid ts loc d = (r3, d3)"
        by (simp add: StartSchedule_def)
      show ?thesis
      proof (cases r3)
        case (Inl e)
        with assms eq have "error_type e = Some NotFound \<or> error_type e = Some ValidationError" by auto
        with up Inl have "store_unchanged d2 d3" by (auto dest: Repository_UpdateSchedule_failure)
        with u1 u2 eq show ?thesis by (auto intro: store_unchanged_trans)
      next
        case (Inr z)
        with assms eq show ?thesis by simp
      qed
    qed
  qed
qed

lemma example_GetScheduleByID_77:
  "Repository_GetScheduleByID 77 example_db = (Inl (AppErrorWithType NotFound), example_db)"
  by (simp add: example_defs store_defs)

lemma example_GetByID_999:
  "UserRepository_GetByID 999 example_db = (Inl (AppErrorWithType NotFound), example_db)"
  by (simp add: example_defs store_defs)

lemma example_GetByID_100:
  "UserRepository_GetByID 100 example_db = (Inr (example_user 100), example_db)"
  by (simp add: example_defs store_defs)

text \<open>
  C5. A precondition failure of a mutation is returned at once and nothing is written.
  \<open>CreateSchedule\<close>: whenever it fails with \<open>NotFound\<close> the tables are as before, and it
  does fail so, naming the role, when the lookup of the client or of the assigned user
  fails. \<open>StartSchedule\<close>: whenever it fails with \<open>ValidationError\<close> or \<open>NotFound\<close> the
  tables are as before (so check-in time and location stay unset); a failed lookup of the
  schedule is returned as it is, by \<open>EndSchedule\<close> too, and a schedule that is not
  \<open>upcoming\<close> is refused right after the lookup. \<open>EndSchedule\<close> on a schedule that is not
  \<open>in_progress\<close> is refused right after the lookup, the tables as before (so check-out
  time and location stay unset).
\<close>

theorem precondition_failures_write_nothing:
  "(result_error_type (fst (CreateSchedule new_uuid newSchedule d)) = Some NotFound
      \<longrightarrow> store_unchanged d (snd (CreateSchedule new_uuid newSchedule d)))
   \<and> (UserRepository_GetByID (ClientUserID newSchedule) d = (Inl e1, d1)
      \<longrightarrow> CreateSchedule new_uuid newSchedule d
            = (Inl (AppError NotFound ''client user not found''), d1))
   \<and> (UserRepository_GetByID (ClientUserID newSchedule) d = (Inr client, d1)
        \<and> UserRepository_GetByID (AssignedUserID newSchedule) d1 = (Inl e2, d2)
      \<longrightarrow> CreateSchedule new_uuid newSchedule d
            = (Inl (AppError NotFound ''assigned user not found''), d2))
   \<and> (result_error_type (fst (StartSchedule sid ts loc d)) = Some ValidationError
        \<or> result_error_type (fst (StartSchedule sid ts loc d)) = Some NotFound
      \<longrightarrow> store_unchanged d (snd (StartSchedule sid ts loc d)))
   \<and> (Repository_GetScheduleByID sid d = (Inl e3, d3)
      \<longrightarrow> StartSchedule sid ts loc d = (Inl e3, d3) \<and> EndSchedule sid ts loc tasks d = (Inl e3, d3))
   \<and> (Repository_GetScheduleByID sid d = (Inr s, d4) \<and> VisitStatus s \<noteq> ''upcoming''
      \<longrightarrow> StartSchedule sid ts loc d
            = (Inl (AppError ValidationError ''schedule is not in 'upcoming' status''), d4))
   \<and> (Repository_GetScheduleByID sid d = (Inr s, d4) \<and> VisitStatus s \<noteq> ''in_progress''
      \<longrightarrow> EndSchedule sid ts loc tasks d
            = (Inl (AppError ValidationError ''schedule is not in 'in_progress' status''), d4)
          \<and> store_unchanged d d4)"
  using CreateSchedule_NotFound_unchanged [of new_uuid newSchedule d]
    StartSchedule_failure_unchanged [of sid ts loc d]
    GetScheduleByID_unchanged [of sid d "Inr s" d4]
  by (auto simp: CreateSchedule_def StartSchedule_def EndSchedule_def)

theorem precondition_failures_write_nothing_witness:
  "result_error_type (fst (CreateSchedule example_new_uuid (example_new_schedule 999 200) example_db))
     = Some NotFound
   \<and> store_unchanged example_db
        (snd (CreateSchedule example_new_uuid (example_new_schedule 999 200) example_db))
   \<and> UserRepository_GetByID 999 example_db = (Inl (AppErrorWithType NotFound), example_db)
   \<and> CreateSchedule example_new_uuid (example_new_schedule 999 200) example_db
        = (Inl (AppError NotFound ''client user not found''), example_db)
   \<and> UserRepository_GetByID 100 example_db = (Inr (example_user 100), example_db)
   \<and> CreateSchedule example_new_uuid (example_new_schedule 100 999) example_db
        = (Inl (AppError NotFound ''assigned user not found''), example_db)
   \<and> result_error_type (fst (StartSchedule 10 999 example_location example_db))
        = Some ValidationError
   \<and> store_unchanged example_db (snd (StartSchedule 10 999 example_location example_db))
   \<and> Repository_GetScheduleByID 77 example_db = (Inl (AppErrorWithType NotFound), example_db)
   \<and> StartSchedule 77 1500 example_location example_db
        = (Inl (AppErrorWithType NotFound), example_db)
   \<and> EndSchedule 77 1500 example_location [example_task_update 31] example_db
        = (Inl (AppErrorWithType NotFound), example_db)
   \<and> Repository_GetScheduleByID 20 example_db
        = (Inr (example_schedule 20 200 ''completed''), example_db)
   \<and> StartSchedule 20 1500 example_location example_db
        = (Inl (AppError ValidationError ''schedule is not in 'upcoming' status''), example_db)
   \<and> EndSchedule 20 1500 example_location [example_task_update 31] example_db
        = (Inl (AppError ValidationError ''schedule is not in 'in_progress' status''), example_db)"
proof -
  have c: "ClientUserID (example_new_schedule 999 200) = 999"
    "ClientUserID (example_new_schedule 100 999) = 100"
    "AssignedUserID (example_new_schedule 100 999) = 999"
    by (simp_all add: example_new_schedule_def)
  have early: "result_error_type (fst (StartSchedule 10 999 example_location example_db))
        = Some ValidationError"
    by (simp add: StartSchedule_def example_GetScheduleByID_10 example_schedule_fields Before_def)
  note t1 = precondition_failures_write_nothing
      [where new_uuid = example_new_uuid and newSchedule = "example_new_schedule 999 200"
         and d = example_db and ?e1.0 = "AppErrorWithType NotFound" and ?d1.0 = example_db
         and sid = 10 and ts = 999 and loc = example_location]
  note t2 = precondition_failures_write_nothing
      [where new_uuid = example_new_uuid and newSchedule = "example_new_schedule 100 999"
         and d = example_db and client = "example_user 100" and ?d1.0 = example_db
         and ?e2.0 = "AppErrorWithType NotFound" and ?d2.0 = example_db
         and sid = 77 and ts = 1500 and loc = example_location
         and ?e3.0 = "AppErrorWithType NotFound" and ?d3.0 = example_db
         and tasks = "[example_task_update 31]"]
  note t3 = precondition_failures_write_nothing
      [where d = example_db and sid = 20 and ts = 1500 and loc = example_location
         and s = "example_schedule 20 200 ''completed''" and ?d4.0 = example_db
         and tasks = "[example_task_update 31]"]
  from t1 have a1: "result_error_type (fst (CreateSchedule example_new_uuid (example_new_schedule 999 200) example_db))
     = Some NotFound
   \<and> store_unchanged example_db
        (snd (CreateSchedule example_new_uuid (example_new_schedule 999 200) example_db))
   \<and> CreateSchedule example_new_uuid (example_new_schedule 999 200) example_db
        = (Inl (AppError NotFound ''client user not found''), example_db)
   \<and> store_unchanged example_db (snd (StartSchedule 10 999 example_location example_db))"
    using early by (simp add: c example_GetByID_999 store_unchanged_refl)
  from t2 have a2: "CreateSchedule example_new_uuid (example_new_schedule 100 999) example_db
        = (Inl (AppError NotFound ''assigned user not found''), example_db)
     \<and> StartSchedule 77 1500 example_location example_db
        = (Inl (AppErrorWithType NotFound), example_db)
   \<and> EndSchedule 77 1500 example_location [example_task_update 31] example_db
        = (Inl (AppErrorWithType NotFound), example_db)"
    by (simp add: c example_GetByID_999 example_GetByID_100 example_GetScheduleByID_77)
  from t3 have a3: "StartSchedule 20 1500 example_location example_db
        = (Inl (AppError ValidationError ''schedule is not in 'upcoming' status''), example_db)
   \<and> EndSchedule 20 1500 example_location [example_task_update 31] example_db
        = (Inl (AppError ValidationError ''schedule is not in 'in_progress' status''), example_db)"
    by (simp add: example_GetScheduleByID_20 example_schedule_fields)
  from a1 a2 a3 early show ?thesis
    by (simp add: example_GetByID_999 example_GetByID_100 example_GetScheduleByID_77
          example_GetScheduleByID_20 store_unchanged_refl)
qed

subsection \<open>Ending a visit: task updates that fail\<close>

lemma db_updates_task_schedules:
  "db_updates_task tid upd d = (r, d') \<Longrightarrow> db_schedules d' = db_schedules d \<and> db_users d' = db_users d"
  by (auto simp: db_updates_task_def db_call_def
           split: prod.splits option.splits if_splits list.splits)

lemma Repository_UpdateTask_schedules:
  "Repository_UpdateTask tid upd d = (r, d') \<Longrightarrow> db_schedules d' = db_schedules d \<and> db_users d' = db_users d"
  by (auto simp: Repository_UpdateTask_def store_unchanged_def
           split: prod.splits option.splits sum.splits
           dest!: db_updates_task_schedules db_first_task_unchanged)

lemma EndSchedule_tasks_schedules:
  "db_schedules (EndSchedule_tasks tasks d) = db_schedules d"
proof (induction tasks arbitrary: d)
  case Nil
  show ?case by simp
next
  case (Cons task rest)
  then show ?case
    by (auto split: prod.splits sum.splits dest!: Repository_UpdateTask_schedules)
qed

lemma EndSchedule_tasks_append:
  "EndSchedule_tasks (xs @ ys) d = EndSchedule_tasks ys (EndSchedule_tasks xs d)"
  by (induction xs arbitrary: d) (auto split: prod.splits sum.splits)

lemma example_end_update:
  "Repository_UpdateSchedule 30
     [(''visit_status'', DString ''completed''),
      (''checkout_time'', DTime 2500),
      (''checkout_location_lat'', DFloat64Ptr (Lat example_location)),
      (''checkout_location_long'', DFloat64Ptr (Long example_location))] example_db
   = (Inr ((example_schedule 30 300 ''completed'')
             \<lparr>CheckoutTime := Some 2500, CheckoutLocation := example_location, UpdatedAt := 2000\<rparr>),
      example_db\<lparr>db_schedules :=
         [example_row 10 200 ''upcoming'', example_row 20 200 ''completed'',
          (example_row 30 300 ''completed'')
            \<lparr>Row_CheckoutTime := Some 2500, Row_CheckoutLocationLat := Some 3,
             Row_CheckoutLocationLong := Some 4, Row_UpdatedAt := 2000\<rparr>,
          example_row 40 300 ''upcoming'']\<rparr>)"
  by (simp add: example_defs store_defs)

lemma example_missing_task:
  "Repository_UpdateTask (Task_ID (example_task_update 99))
     [(''status'', DString (Task_Status (example_task_update 99))),
      (''done'', DBoolPtr (Task_Done (example_task_update 99))),
      (''feedback'', DStringPtr (Task_Feedback (example_task_update 99)))]
     (EndSchedule_tasks []
        (example_db\<lparr>db_schedules :=
         [example_row 10 200 ''upcoming'', example_row 20 200 ''completed'',
          (example_row 30 300 ''completed'')
            \<lparr>Row_CheckoutTime := Some 2500, Row_CheckoutLocationLat := Some 3,
             Row_CheckoutLocationLong := Some 4, Row_UpdatedAt := 2000\<rparr>,
          example_row 40 300 ''upcoming'']\<rparr>))
   = (Inl (GormError ErrRecordNotFound),
      example_db\<lparr>db_schedules :=
         [example_row 10 200 ''upcoming'', example_row 20 200 ''completed'',
          (example_row 30 300 ''completed'')
            \<lparr>Row_CheckoutTime := Some 2500, Row_CheckoutLocationLat := Some 3,
             Row_CheckoutLocationLong := Some 4, Row_UpdatedAt := 2000\<rparr>,
          example_row 40 300 ''upcoming'']\<rparr>)"
  by (simp add: example_defs store_defs)

text \<open>
  C6. \<open>EndSchedule\<close> on a schedule in progress, the store's update of the schedule having
  succeeded: when the update of one task of \<open>taskUpdates\<close> fails, whatever the error and
  wherever the task stands in the list, \<open>EndSchedule\<close> still returns the updated schedule
  and no error; the loop goes on with the remaining task updates, from the state the
  failed update left; and the schedule is, in the result and in the store, \<open>completed\<close>.
\<close>

theorem EndSchedule_task_failure:
  assumes "Repository_GetScheduleByID sid d = (Inr s, d1)"
    and "VisitStatus s = ''in_progress''"
    and "Repository_UpdateSchedule sid
           [(''visit_status'', DString ''completed''),
            (''checkout_time'', DTime ts),
            (''checkout_location_lat'', DFloat64Ptr (Lat loc)),
            (''checkout_location_long'', DFloat64Ptr (Long loc))] d1 = (Inr s', d2)"
    and "tasks = before @ task # rest"
    and "Repository_UpdateTask (Task_ID task)
           [(''status'', DString (Task_Status task)),
            (''done'', DBoolPtr (Task_Done task)),
            (''feedback'', DStringPtr (Task_Feedback task))] (EndSchedule_tasks before d2)
         = (Inl err, d3)"
  shows "EndSchedule sid ts loc tasks d = (Inr s', EndSchedule_tasks rest d3)
         \<and> VisitStatus s' = ''completed''
         \<and> stored_status (EndSchedule_tasks rest d3) sid = Some ''completed''"
proof -
  have tasks: "EndSchedule_tasks tasks d2 = EndSchedule_tasks rest d3"
    using assms(4,5) by (simp add: EndSchedule_tasks_append)
  have res: "EndSchedule sid ts loc tasks d = (Inr s', EndSchedule_tasks rest d3)"
    using assms(1,2,3) tasks by (simp add: EndSchedule_def)
  have upd: "VisitStatus s' = ''completed''" "stored_status d2 sid = Some ''completed''"
    using Repository_UpdateSchedule_end[OF assms(3)] by simp_all
  have "db_schedules (EndSchedule_tasks rest d3) = db_schedules d2"
    using EndSchedule_tasks_schedules[of tasks d2] tasks by simp
  then have "stored_status (EndSchedule_tasks rest d3) sid = Some ''completed''"
    using upd(2) by (simp add: stored_status_def)
  with res upd(1) show ?thesis by simp
qed

theorem EndSchedule_task_failure_witness:
  "Repository_GetScheduleByID 30 example_db
     = (Inr (example_schedule 30 300 ''in_progress''), example_db)
   \<and> fst (Repository_UpdateTask 99
            [(''status'', DString ''completed''), (''done'', DBoolPtr (Some True)),
             (''feedback'', DStringPtr (Some ''taken''))]
            (snd (Repository_UpdateSchedule 30
               [(''visit_status'', DString ''completed''), (''checkout_time'', DTime 2500),
                (''checkout_location_lat'', DFloat64Ptr (Some 3)),
                (''checkout_location_long'', DFloat64Ptr (Some 4))] example_db)))
        = Inl (GormError ErrRecordNotFound)
   \<and> fst (EndSchedule 30 2500 example_location
             [example_task_update 99, example_task_update 31] example_db)
        = Inr ((example_schedule 30 300 ''completed'')
             \<lparr>CheckoutTime := Some 2500, CheckoutLocation := example_location, UpdatedAt := 2000\<rparr>)
   \<and> stored_status (snd (EndSchedule 30 2500 example_location
             [example_task_update 99, example_task_update 31] example_db)) 30 = Some ''completed''
   \<and> map TaskRow_Status (db_tasks (snd (EndSchedule 30 2500 example_location
             [example_task_update 99, example_task_update 31] example_db)))
        = [''pending'', ''completed'']"
proof -
  note t = EndSchedule_task_failure
    [OF example_GetScheduleByID_30 _ example_end_update, where before = "[]",
     OF _ _ example_missing_task, of "[example_task_update 99, example_task_update 31]" "[example_task_update 31]"]
  have "EndSchedule 30 2500 example_location [example_task_update 99, example_task_update 31] example_db
        = (Inr ((example_schedule 30 300 ''completed'')
             \<lparr>CheckoutTime := Some 2500, CheckoutLocation := example_location, UpdatedAt := 2000\<rparr>),
           EndSchedule_tasks [example_task_update 31] (example_db\<lparr>db_schedules :=
         [example_row 10 200 ''upcoming'', example_row 20 200 ''completed'',
          (example_row 30 300 ''completed'')
            \<lparr>Row_CheckoutTime := Some 2500, Row_CheckoutLocationLat := Some 3,
             Row_CheckoutLocationLong := Some 4, Row_UpdatedAt := 2000\<rparr>,
          example_row 40 300 ''upcoming'']\<rparr>))"
    using t by (simp add: example_schedule_fields)
  then show ?thesis
    by (simp add: example_GetScheduleByID_30) (simp add: example_defs store_defs stored_status_def)
qed

subsection \<open>Partial updates: the checks before the store is reached\<close>

lemma UpdateSchedule_user_unchanged:
  "UpdateSchedule_user key msg upd d = (r, d') \<Longrightarrow> store_unchanged d d'"
  by (auto simp: UpdateSchedule_user_def store_unchanged_refl
           split: option.splits prod.splits sum.splits dest: GetByID_unchanged)


lemma UpdateSchedule_status_error:
  "UpdateSchedule_status existing upd = Some e \<Longrightarrow> error_type e = Some ValidationError"
  by (auto simp: UpdateSchedule_status_def split: option.splits if_splits)

subsection \<open>How the operations move the stored visit status\<close>



lemma db_updates_schedule_effect:
  assumes "db_updates_schedule sid upd d = (r, d')"
  shows "store_unchanged d d'
         \<or> (\<exists>f. assignments schedule_column upd = Some f
                 \<and> db_schedules d'
                     = map (\<lambda>r. if Row_ID r = sid then touched upd (db_now d) f r else r)
                         (db_schedules d))"
  using assms
  by (cases r) (auto dest: db_updates_schedule_None(1) db_updates_schedule_Some)

lemma Repository_UpdateSchedule_effect:
  assumes "Repository_UpdateSchedule sid upd d = (r, d')"
  shows "store_unchanged d d'
         \<or> (\<exists>f. assignments schedule_column upd = Some f
                 \<and> db_schedules d'
                     = map (\<lambda>r. if Row_ID r = sid then touched upd (db_now d) f r else r)
                         (db_schedules d))"
proof -
  obtain x1 d1 where a: "db_first_schedule sid d = (x1, d1)" by (cases "db_first_schedule sid d")
  have u1: "store_unchanged d d1" using a by (rule db_first_schedule_unchanged)
  show ?thesis
  proof (cases x1)
    case (Inl e)
    with a assms u1 show ?thesis by (auto simp: Repository_UpdateSchedule_def)
  next
    case (Inr r1)
    with a have n1: "db_now d1 = db_now d" and id1: "Row_ID r1 = sid"
      using db_first_schedule_Inr[of sid d r1 d1]
      by (auto simp: preload_tasks_def dest: find_Row_ID)
    obtain x2 d2 where b: "db_updates_schedule sid upd d1 = (x2, d2)"
      by (cases "db_updates_schedule sid upd d1")
    have e2: "store_unchanged d1 d2
         \<or> (\<exists>f. assignments schedule_column upd = Some f
                 \<and> db_schedules d2
                     = map (\<lambda>r. if Row_ID r = sid then touched upd (db_now d1) f r else r)
                         (db_schedules d1))"
      using b by (rule db_updates_schedule_effect)
    have u3: "store_unchanged d2 d'"
    proof (cases x2)
      case None
      obtain x3 d3 where c: "db_first_schedule sid d2 = (x3, d3)"
        by (cases "db_first_schedule sid d2")
      then have "store_unchanged d2 d3" by (rule db_first_schedule_unchanged)
      moreover have "d' = d3" using assms a Inr id1 b None c
        by (auto simp: Repository_UpdateSchedule_def split: sum.splits)
      ultimately show ?thesis by simp
    next
      case (Some e)
      with assms a Inr id1 b show ?thesis
        by (auto simp: Repository_UpdateSchedule_def store_unchanged_refl)
    qed
    from e2 u1 u3 n1 show ?thesis by (auto simp: store_unchanged_def)
  qed
qed










lemma find_None_iff_ids:
  "find (\<lambda>r. Row_ID r = sid) rows = None \<longleftrightarrow> sid \<notin> set (map Row_ID rows)"
  by (induction rows) auto

lemma db_create_schedule_success:
  assumes "db_create_schedule row d = (Inr row', d')"
  shows "db_schedules d' = db_schedules d @ [row'\<lparr>Row_Tasks := []\<rparr>]
         \<and> Row_ID row' \<notin> set (map Row_ID (db_schedules d))
         \<and> Row_VisitStatus row' = Row_VisitStatus row
         \<and> Row_ScheduledSlotFrom row' = Row_ScheduledSlotFrom row
         \<and> Row_ScheduledSlotTo row' = Row_ScheduledSlotTo row
         \<and> db_users d' = db_users d"
  using assms
  by (auto simp: db_create_schedule_def db_call_def Let_def
           split: prod.splits option.splits list.splits if_splits)



subsection \<open>Partial updates: the user checks\<close>

lemma example_user_block_skipped:
  "UpdateSchedule_user ''assigned_user_id'' ''new assigned user not found''
     [(''client_user_id'', DString ''00000000-0000-0000-0000-0000000003e7'')] example_db
   = (None, example_db)"
  "UpdateSchedule_user ''client_user_id'' ''new client user not found''
     [(''assigned_user_id'', DString ''00000000-0000-0000-0000-0000000003e7'')] example_db
   = (None, example_db)"
  by (simp_all add: UpdateSchedule_user_def)

text \<open>
  C10. \<open>UpdateSchedule\<close> looks a user up only for a \<open>client_user_id\<close> or
  \<open>assigned_user_id\<close> entry whose dynamic type is \<open>uuid.UUID\<close>. For an entry of any
  other dynamic type, a string that encodes a UUID for one, the user block does nothing:
  no lookup, no \<open>NotFound\<close>. With the other user block and the status block passed, the
  call is then the store's update of the very same field map, the raw value in it.
\<close>

theorem UpdateSchedule_user_check_needs_uuid:
  "(map_of upd key = Some v \<and> assert_uuid (Some v) = None
      \<longrightarrow> UpdateSchedule_user key msg upd d = (None, d))
   \<and> (Repository_GetScheduleByID sid d = (Inr existing, d1)
        \<and> map_of upd ''client_user_id'' = Some v \<and> assert_uuid (Some v) = None
        \<and> UpdateSchedule_user ''assigned_user_id'' ''new assigned user not found'' upd d1
             = (None, d2)
        \<and> UpdateSchedule_status existing upd = None
      \<longrightarrow> UpdateSchedule sid upd d = Repository_UpdateSchedule sid upd d2)
   \<and> (Repository_GetScheduleByID sid d = (Inr existing, d1)
        \<and> UpdateSchedule_user ''client_user_id'' ''new client user not found'' upd d1
             = (None, d2)
        \<and> map_of upd ''assigned_user_id'' = Some v \<and> assert_uuid (Some v) = None
        \<and> UpdateSchedule_status existing upd = None
      \<longrightarrow> UpdateSchedule sid upd d = Repository_UpdateSchedule sid upd d2)"
  by (auto simp: UpdateSchedule_def UpdateSchedule_user_def)

theorem UpdateSchedule_user_check_needs_uuid_witness:
  "UserRepository_GetByID 999 example_db = (Inl (AppErrorWithType NotFound), example_db)
   \<and> uuid_of_string ''00000000-0000-0000-0000-0000000003e7'' = Some 999
   \<and> UpdateSchedule_user ''client_user_id'' ''new client user not found''
        [(''client_user_id'', DString ''00000000-0000-0000-0000-0000000003e7'')] example_db
      = (None, example_db)
   \<and> UpdateSchedule 10
        [(''client_user_id'', DString ''00000000-0000-0000-0000-0000000003e7'')] example_db
      = Repository_UpdateSchedule 10
          [(''client_user_id'', DString ''00000000-0000-0000-0000-0000000003e7'')] example_db
   \<and> map Row_ClientUserID (db_schedules (snd (UpdateSchedule 10
        [(''client_user_id'', DString ''00000000-0000-0000-0000-0000000003e7'')] example_db)))
      = [999, 100, 100, 100]
   \<and> UpdateSchedule 10
        [(''assigned_user_id'', DString ''00000000-0000-0000-0000-0000000003e7'')] example_db
      = Repository_UpdateSchedule 10
          [(''assigned_user_id'', DString ''00000000-0000-0000-0000-0000000003e7'')] example_db
   \<and> map Row_AssignedUserID (db_schedules (snd (UpdateSchedule 10
        [(''assigned_user_id'', DString ''00000000-0000-0000-0000-0000000003e7'')] example_db)))
      = [999, 200, 300, 300]
   \<and> fst (UpdateSchedule 10 [(''client_user_id'', DUuid 999)] example_db)
      = Inl (AppError NotFound ''new client user not found'')"
proof -
  note t1 = UpdateSchedule_user_check_needs_uuid
    [where upd = "[(''client_user_id'', DString ''00000000-0000-0000-0000-0000000003e7'')]"
       and key = "''client_user_id''" and msg = "''new client user not found''"
       and v = "DString ''00000000-0000-0000-0000-0000000003e7''"
       and d = example_db and sid = 10 and existing = "example_schedule 10 200 ''upcoming''"
       and ?d1.0 = example_db and ?d2.0 = example_db]
  note t2 = UpdateSchedule_user_check_needs_uuid
    [where upd = "[(''assigned_user_id'', DString ''00000000-0000-0000-0000-0000000003e7'')]"
       and key = "''assigned_user_id''" and msg = "''new assigned user not found''"
       and v = "DString ''00000000-0000-0000-0000-0000000003e7''"
       and d = example_db and sid = 10 and existing = "example_schedule 10 200 ''upcoming''"
       and ?d1.0 = example_db and ?d2.0 = example_db]
  have a1: "UpdateSchedule_user ''client_user_id'' ''new client user not found''
        [(''client_user_id'', DString ''00000000-0000-0000-0000-0000000003e7'')] example_db
      = (None, example_db)
    \<and> UpdateSchedule 10
        [(''client_user_id'', DString ''00000000-0000-0000-0000-0000000003e7'')] example_db
      = Repository_UpdateSchedule 10
          [(''client_user_id'', DString ''00000000-0000-0000-0000-0000000003e7'')] example_db"
    using t1 by (simp add: example_GetScheduleByID_10 example_user_block_skipped
                   UpdateSchedule_status_def)
  have a2: "UpdateSchedule 10
        [(''assigned_user_id'', DString ''00000000-0000-0000-0000-0000000003e7'')] example_db
      = Repository_UpdateSchedule 10
          [(''assigned_user_id'', DString ''00000000-0000-0000-0000-0000000003e7'')] example_db"
    using t2 by (simp add: example_GetScheduleByID_10 example_user_block_skipped
                   UpdateSchedule_status_def)
  have a3: "map Row_ClientUserID (db_schedules (snd (Repository_UpdateSchedule 10
        [(''client_user_id'', DString ''00000000-0000-0000-0000-0000000003e7'')] example_db)))
      = [999, 100, 100, 100]"
    "map Row_AssignedUserID (db_schedules (snd (Repository_UpdateSchedule 10
        [(''assigned_user_id'', DString ''00000000-0000-0000-0000-0000000003e7'')] example_db)))
      = [999, 200, 300, 300]"
    by (simp_all add: example_defs store_defs)
  have a4: "fst (UpdateSchedule 10 [(''client_user_id'', DUuid 999)] example_db)
      = Inl (AppError NotFound ''new client user not found'')"
    by (simp add: UpdateSchedule_def UpdateSchedule_user_def example_GetScheduleByID_10
          example_GetByID_999)
  have a5: "uuid_of_string ''00000000-0000-0000-0000-0000000003e7'' = Some 999"
    by (simp add: uuid_of_string_def hex_digit_def)
  from a1 a2 a3 a4 a5 example_GetByID_999 show ?thesis by simp
qed

subsection \<open>Partial updates: completed and cancelled are terminal\<close>






subsection \<open>The transitions of the visit status\<close>








subsection \<open>Creating a schedule\<close>

lemma create_task_rows_length:
  "length (fst (create_task_rows sid now ids n ts)) = length ts"
proof (induction ts arbitrary: n)
  case Nil
  show ?case by simp
next
  case (Cons t ts)
  from Cons[of n] Cons[of "Suc n"] show ?case
    by (auto simp: Let_def split: prod.splits)
qed

lemma create_task_rows_nth:
  assumes "i < length ts"
  shows "TaskRow_Status (fst (create_task_rows sid now ids n ts) ! i) = TaskRow_Status (ts ! i)
       \<and> TaskRow_Title (fst (create_task_rows sid now ids n ts) ! i) = TaskRow_Title (ts ! i)
       \<and> TaskRow_Description (fst (create_task_rows sid now ids n ts) ! i)
           = TaskRow_Description (ts ! i)
       \<and> (TaskRow_ID (ts ! i) \<noteq> uuid_Nil
            \<longrightarrow> TaskRow_ID (fst (create_task_rows sid now ids n ts) ! i) = TaskRow_ID (ts ! i))"
  using assms
proof (induction ts arbitrary: n i)
  case Nil
  then show ?case by simp
next
  case (Cons t ts)
  show ?case
  proof (cases i)
    case 0
    then show ?thesis by (auto simp: Let_def split: prod.splits)
  next
    case (Suc j)
    with Cons.prems have j: "j < length ts" by simp
    from Cons.IH[OF j, of "Suc n"] Cons.IH[OF j, of n] Suc show ?thesis
      by (auto simp: Let_def split: prod.splits)
  qed
qed

lemma CreateSchedule_tasks_length:
  "length (CreateSchedule_tasks new_uuid k ts) = length ts"
  by (induction ts arbitrary: k) auto

lemma CreateSchedule_tasks_nth:
  assumes "i < length ts"
  shows "CreateSchedule_tasks new_uuid k ts ! i
         = (ts ! i)\<lparr>Task_ID := (if Task_ID (ts ! i) = uuid_Nil then new_uuid (k + i)
                                 else Task_ID (ts ! i)),
                    Task_Status := ''pending''\<rparr>"
  using assms
proof (induction ts arbitrary: k i)
  case Nil
  then show ?case by simp
next
  case (Cons t ts)
  show ?case
  proof (cases i)
    case 0
    then show ?thesis by simp
  next
    case (Suc j)
    with Cons.prems have j: "j < length ts" by simp
    from Cons.IH[OF j, of "Suc k"] Suc show ?thesis by simp
  qed
qed

lemma db_create_schedule_tasks:
  assumes "db_create_schedule row d = (Inr row', d')"
  shows "\<exists>sid now ids n. Row_Tasks row' = fst (create_task_rows sid now ids n (Row_Tasks row))"
  using assms
  apply (auto simp: db_create_schedule_def db_call_def Let_def
              split: prod.splits option.splits list.splits if_splits)
     apply (metis fst_conv)+
  done

lemma example_CreateSchedule_result:
  "CreateSchedule example_new_uuid (example_new_schedule 100 200) example_db
   = (Inr (projr (fst (CreateSchedule example_new_uuid (example_new_schedule 100 200) example_db))),
      snd (CreateSchedule example_new_uuid (example_new_schedule 100 200) example_db))"
  by (simp add: CreateSchedule_def example_defs store_defs Let_def)

text \<open>
  C8, as the specification states it, fails in its last part: \<open>CreateSchedule\<close> sets the
  status of every task to \<open>pending\<close>, also of a task that arrives with a status. The task
  of the example arrives as \<open>done\<close> and is created as \<open>pending\<close>.
\<close>

theorem CreateSchedule_result_counterexample:
  "map Task_Status (Tasks (example_new_schedule 100 200)) = [''done'']
   \<and> \<not> isl (fst (CreateSchedule example_new_uuid (example_new_schedule 100 200) example_db))
   \<and> map Task_Status (Tasks (projr (fst
        (CreateSchedule example_new_uuid (example_new_schedule 100 200) example_db))))
      = [''pending'']"
  by (simp add: CreateSchedule_def example_defs store_defs Let_def)

text \<open>
  C8, amended. When \<open>CreateSchedule\<close> succeeds, the created schedule has
  \<open>visitStatus = upcoming\<close> whatever the input's was, and it has the input's tasks, in
  order, with their titles and descriptions: each with the status \<open>pending\<close> whatever
  status it arrived with, a task that arrived without identifier with the one
  \<open>uuid.New()\<close> made for it, a task that arrived with an identifier with that one.
  (\<open>uuid.New()\<close> makes version 4 identifiers, never the nil one: the hypothesis.)
\<close>

theorem CreateSchedule_result:
  assumes "CreateSchedule new_uuid newSchedule d = (Inr created, d')"
    and "\<forall>i < length (Tasks newSchedule). new_uuid i \<noteq> uuid_Nil"
  shows "VisitStatus created = ''upcoming''
       \<and> length (Tasks created) = length (Tasks newSchedule)
       \<and> (\<forall>i < length (Tasks newSchedule).
            Task_Status (Tasks created ! i) = ''pending''
            \<and> Task_ID (Tasks created ! i)
                = (if Task_ID (Tasks newSchedule ! i) = uuid_Nil then new_uuid i
                   else Task_ID (Tasks newSchedule ! i))
            \<and> Task_Title (Tasks created ! i) = Task_Title (Tasks newSchedule ! i)
            \<and> Task_Description (Tasks created ! i) = Task_Description (Tasks newSchedule ! i))"
proof -
  let ?ts = "CreateSchedule_tasks new_uuid 0 (Tasks newSchedule)"
  let ?s = "newSchedule\<lparr>VisitStatus := ''upcoming'', Tasks := ?ts\<rparr>"
  from assms(1) obtain d2 where cr: "Repository_Create ?s d2 = (Inr created, d')"
    by (auto simp: CreateSchedule_def split: prod.splits sum.splits)
  then obtain row' where c: "db_create_schedule (fromDomainMapper ?s) d2 = (Inr row', d')"
    and created: "created = toDomainMapper row'"
    by (auto simp: Repository_Create_def split: prod.splits sum.splits)
  from db_create_schedule_success[OF c] have st: "Row_VisitStatus row' = ''upcoming''"
    by (simp add: fromDomainMapper_def)
  from db_create_schedule_tasks[OF c] obtain sid now ids n where
    tasks: "Row_Tasks row' = fst (create_task_rows sid now ids n (map task_fromDomainMapper ?ts))"
    by (auto simp: fromDomainMapper_def)
  have len: "length (Tasks created) = length (Tasks newSchedule)"
    using created tasks
    by (simp add: toDomainMapper_def create_task_rows_length CreateSchedule_tasks_length)
  have each: "Task_Status (Tasks created ! i) = ''pending''
            \<and> Task_ID (Tasks created ! i)
                = (if Task_ID (Tasks newSchedule ! i) = uuid_Nil then new_uuid i
                   else Task_ID (Tasks newSchedule ! i))
            \<and> Task_Title (Tasks created ! i) = Task_Title (Tasks newSchedule ! i)
            \<and> Task_Description (Tasks created ! i) = Task_Description (Tasks newSchedule ! i)"
    if i: "i < length (Tasks newSchedule)" for i
  proof -
    have i': "i < length (map task_fromDomainMapper ?ts)"
      using i by (simp add: CreateSchedule_tasks_length)
    have nonnil: "TaskRow_ID (map task_fromDomainMapper ?ts ! i) \<noteq> uuid_Nil"
      using i assms(2)
      by (simp add: CreateSchedule_tasks_length CreateSchedule_tasks_nth task_fromDomainMapper_def)
    have "Tasks created ! i = task_toDomainMapper (Row_Tasks row' ! i)"
      using created tasks i'
      by (simp add: toDomainMapper_def create_task_rows_length)
    with create_task_rows_nth[OF i', of sid now ids n] nonnil tasks i
    show ?thesis
      by (simp add: task_toDomainMapper_def task_fromDomainMapper_def
            CreateSchedule_tasks_length CreateSchedule_tasks_nth)
  qed
  from st created len each show ?thesis by (simp add: toDomainMapper_def)
qed

theorem CreateSchedule_result_witness:
  "\<not> isl (fst (CreateSchedule example_new_uuid (example_new_schedule 100 200) example_db))
   \<and> example_new_uuid 0 \<noteq> uuid_Nil
   \<and> VisitStatus (example_new_schedule 100 200) = ''completed''
   \<and> VisitStatus (projr (fst
        (CreateSchedule example_new_uuid (example_new_schedule 100 200) example_db)))
      = ''upcoming''
   \<and> map Task_ID (Tasks (example_new_schedule 100 200)) = [uuid_Nil]
   \<and> Task_ID (Tasks (projr (fst
        (CreateSchedule example_new_uuid (example_new_schedule 100 200) example_db))) ! 0)
      = example_new_uuid 0
   \<and> Task_Status (Tasks (projr (fst
        (CreateSchedule example_new_uuid (example_new_schedule 100 200) example_db))) ! 0)
      = ''pending''"
proof -
  have g: "\<forall>i < length (Tasks (example_new_schedule 100 200)). example_new_uuid i \<noteq> uuid_Nil"
    by (simp add: example_new_uuid_def uuid_Nil_def)
  have l: "length (Tasks (example_new_schedule 100 200)) = 1"
    "Task_ID (Tasks (example_new_schedule 100 200) ! 0) = uuid_Nil"
    "map Task_ID (Tasks (example_new_schedule 100 200)) = [uuid_Nil]"
    "VisitStatus (example_new_schedule 100 200) = ''completed''"
    by (simp_all add: example_new_schedule_def)
  from CreateSchedule_result[OF example_CreateSchedule_result g] l
  have "VisitStatus (projr (fst
        (CreateSchedule example_new_uuid (example_new_schedule 100 200) example_db)))
      = ''upcoming''
   \<and> Task_ID (Tasks (projr (fst
        (CreateSchedule example_new_uuid (example_new_schedule 100 200) example_db))) ! 0)
      = example_new_uuid 0
   \<and> Task_Status (Tasks (projr (fst
        (CreateSchedule example_new_uuid (example_new_schedule 100 200) example_db))) ! 0)
      = ''pending''"
    by simp
  moreover have "\<not> isl (fst (CreateSchedule example_new_uuid (example_new_schedule 100 200) example_db))"
    using example_CreateSchedule_result by (metis fst_conv sum.disc(2))
  moreover have "example_new_uuid 0 \<noteq> uuid_Nil"
    by (simp add: example_new_uuid_def uuid_Nil_def)
  ultimately show ?thesis using l by simp
qed

subsection \<open>Updating the status of a task\<close>

lemma status_assignments:
  "assignments task_column
     [(''Status'', DString st), (''Done'', DBool dn), (''Feedback'', DString fb)]
   = Some (\<lambda>t. t\<lparr>TaskRow_Status := st, TaskRow_Done := Some dn, TaskRow_Feedback := Some fb\<rparr>)"
  by (simp add: task_column_def)

lemma status_sets_updated_at:
  "\<not> sets_updated_at [(''Status'', DString st), (''Done'', DBool dn), (''Feedback'', DString fb)]"
  by (simp add: sets_updated_at_def)

lemma find_TaskRow_ID: "find (\<lambda>t. TaskRow_ID t = tid) ts = Some t \<Longrightarrow> TaskRow_ID t = tid"
  by (induction ts) (auto split: if_splits)

lemma find_update_tasks:
  assumes "\<And>t. TaskRow_ID (g t) = TaskRow_ID t"
  shows "find (\<lambda>t. TaskRow_ID t = tid) (map (\<lambda>t. if TaskRow_ID t = tid then g t else t) ts)
           = map_option g (find (\<lambda>t. TaskRow_ID t = tid) ts)"
  by (induction ts) (auto simp: assms)

text \<open>What \<open>UpdateTaskStatus\<close> does when no database call is scripted to fail.\<close>

lemma UpdateTaskStatus_no_faults:
  assumes "db_faults d = []"
  shows "UpdateTaskStatus tid st dn fb d =
     (if tid = uuid_Nil then (Inl (AppErrorWithType UnknownError), d)
      else case find (\<lambda>t. TaskRow_ID t = tid) (db_tasks d) of
             None \<Rightarrow> (Inl (GormError ErrRecordNotFound), d)
           | Some t \<Rightarrow>
               (Inr (task_toDomainMapper
                      (t\<lparr>TaskRow_UpdatedAt := db_now d, TaskRow_Status := st,
                         TaskRow_Done := Some dn, TaskRow_Feedback := Some fb\<rparr>)),
                d\<lparr>db_tasks :=
                    map (\<lambda>t. if TaskRow_ID t = tid
                             then t\<lparr>TaskRow_UpdatedAt := db_now d, TaskRow_Status := st,
                                    TaskRow_Done := Some dn, TaskRow_Feedback := Some fb\<rparr>
                             else t) (db_tasks d)\<rparr>))"
proof -
  let ?g = "\<lambda>t. t\<lparr>TaskRow_UpdatedAt := db_now d, TaskRow_Status := st,
                                    TaskRow_Done := Some dn, TaskRow_Feedback := Some fb\<rparr>"
  have f: "find (\<lambda>t. TaskRow_ID t = tid) (map (\<lambda>t. if TaskRow_ID t = tid then ?g t else t) (db_tasks d))
           = map_option ?g (find (\<lambda>t. TaskRow_ID t = tid) (db_tasks d))"
    by (rule find_update_tasks) simp
  have m: "map (\<lambda>t. if TaskRow_ID t = tid then ?g t else t) (db_tasks d) = db_tasks d"
    if "find (\<lambda>t. TaskRow_ID t = tid) (db_tasks d) = None"
    using that by (induction "db_tasks d") (auto simp: find_None_iff intro!: map_idI)
  show ?thesis
    using assms f
    apply (simp add: UpdateTaskStatus_def Repository_UpdateTask_def db_updates_task_def
        db_first_task_def db_call_def status_assignments status_sets_updated_at
        del: assignments.simps cong: if_cong)
    apply (auto split: option.splits simp: m)
    done
qed


lemma map_task_update_twice:
  assumes "\<And>t. TaskRow_ID (g t) = TaskRow_ID t" and "\<And>t. TaskRow_ID (h t) = TaskRow_ID t"
  shows "map (\<lambda>t. if TaskRow_ID t = tid then h t else t)
           (map (\<lambda>t. if TaskRow_ID t = tid then g t else t) ts)
         = map (\<lambda>t. if TaskRow_ID t = tid then h (g t) else t) ts"
  by (induction ts) (auto simp: assms)

lemma example_no_faults: "db_faults example_db = []"
  by (simp add: example_db_def)

lemma example_UpdateTaskStatus_31:
  "fst (UpdateTaskStatus 31 ''completed'' True ''taken'' example_db)
   = Inr ((task_toDomainMapper (example_task_row 31 30))
            \<lparr>Task_Status := ''completed'', Task_Done := Some True,
             Task_Feedback := Some ''taken'', Task_UpdatedAt := 2000\<rparr>)"
  "map TaskRow_Status (db_tasks (snd (UpdateTaskStatus 31 ''completed'' True ''taken'' example_db)))
   = [''pending'', ''completed'']"
  "fst (UpdateTaskStatus 99 ''completed'' True ''taken'' example_db)
   = Inl (GormError ErrRecordNotFound)"
  by (simp_all add: UpdateTaskStatus_def example_defs store_defs)

text \<open>
  C9. \<open>UpdateTaskStatus\<close> is idempotent. With no database call failing, a second call
  with the same arguments, made in the state the first call left, returns what the first
  returned and leaves the state the first left: a task that was updated is returned again
  and nothing changes further, a task that was not found is not found again. The one
  thing a later second call moves is the store's own \<open>updated_at\<close> stamp, which follows
  the clock: with the clock at \<open>now2\<close> the second call returns the same task with
  \<open>UpdatedAt = now2\<close> and that stamp is all it writes.
\<close>

theorem UpdateTaskStatus_idempotent:
  assumes "db_faults d = []"
  shows "UpdateTaskStatus tid st dn fb (snd (UpdateTaskStatus tid st dn fb d))
           = UpdateTaskStatus tid st dn fb d
       \<and> (fst (UpdateTaskStatus tid st dn fb d) = Inr t1 \<longrightarrow>
            UpdateTaskStatus tid st dn fb ((snd (UpdateTaskStatus tid st dn fb d))\<lparr>db_now := now2\<rparr>)
            = (Inr (t1\<lparr>Task_UpdatedAt := now2\<rparr>),
               (snd (UpdateTaskStatus tid st dn fb d))
                 \<lparr>db_now := now2,
                  db_tasks := map (\<lambda>t. if TaskRow_ID t = tid then t\<lparr>TaskRow_UpdatedAt := now2\<rparr>
                                        else t)
                                (db_tasks (snd (UpdateTaskStatus tid st dn fb d)))\<rparr>))"
proof (cases "tid = uuid_Nil")
  case True
  with assms show ?thesis by (simp add: UpdateTaskStatus_no_faults)
next
  case nonnil: False
  show ?thesis
  proof (cases "find (\<lambda>t. TaskRow_ID t = tid) (db_tasks d)")
    case None
    with assms nonnil show ?thesis by (simp add: UpdateTaskStatus_no_faults)
  next
    case (Some t)
    let ?g = "\<lambda>now t. t\<lparr>TaskRow_UpdatedAt := now, TaskRow_Status := st,
                          TaskRow_Done := Some dn, TaskRow_Feedback := Some fb\<rparr>"
    let ?d1 = "d\<lparr>db_tasks := map (\<lambda>t. if TaskRow_ID t = tid then ?g (db_now d) t else t)
                                 (db_tasks d)\<rparr>"
    have first: "UpdateTaskStatus tid st dn fb d
                   = (Inr (task_toDomainMapper (?g (db_now d) t)), ?d1)"
      using assms nonnil Some by (simp add: UpdateTaskStatus_no_faults)
    have found: "find (\<lambda>t. TaskRow_ID t = tid)
                   (map (\<lambda>t. if TaskRow_ID t = tid then ?g (db_now d) t else t) (db_tasks d))
                 = Some (?g (db_now d) t)"
      using Some find_update_tasks[of "?g (db_now d)" tid "db_tasks d"] by simp
    have twice: "map (\<lambda>t. if TaskRow_ID t = tid then ?g now t else t)
                   (map (\<lambda>t. if TaskRow_ID t = tid then ?g (db_now d) t else t) (db_tasks d))
                 = map (\<lambda>t. if TaskRow_ID t = tid then ?g now (?g (db_now d) t) else t) (db_tasks d)"
      for now
      by (rule map_task_update_twice) simp_all
    have stamp: "map (\<lambda>t. if TaskRow_ID t = tid then t\<lparr>TaskRow_UpdatedAt := now\<rparr> else t)
                   (map (\<lambda>t. if TaskRow_ID t = tid then ?g (db_now d) t else t) (db_tasks d))
                 = map (\<lambda>t. if TaskRow_ID t = tid then (?g (db_now d) t)\<lparr>TaskRow_UpdatedAt := now\<rparr> else t)
                     (db_tasks d)"
      for now
      by (rule map_task_update_twice) simp_all
    have second: "UpdateTaskStatus tid st dn fb (?d1\<lparr>db_now := now\<rparr>)
                  = (Inr (task_toDomainMapper (?g now t)),
                     ?d1\<lparr>db_now := now,
                         db_tasks := map (\<lambda>t. if TaskRow_ID t = tid
                                              then t\<lparr>TaskRow_UpdatedAt := now\<rparr> else t)
                                       (db_tasks ?d1)\<rparr>)"
      for now
      using assms nonnil found
      by (simp add: UpdateTaskStatus_no_faults twice stamp)
    have same: "?d1\<lparr>db_now := db_now d,
                     db_tasks := map (\<lambda>t. if TaskRow_ID t = tid
                                          then t\<lparr>TaskRow_UpdatedAt := db_now d\<rparr> else t)
                                   (db_tasks ?d1)\<rparr> = ?d1"
      by (simp add: stamp)
    have "UpdateTaskStatus tid st dn fb ?d1
            = (Inr (task_toDomainMapper (?g (db_now d) t)), ?d1)"
      using second[of "db_now d"] same by simp
    with first second[of now2] show ?thesis
      by (auto simp: task_toDomainMapper_def)
  qed
qed

theorem UpdateTaskStatus_idempotent_witness:
  "db_faults example_db = []
   \<and> fst (UpdateTaskStatus 31 ''completed'' True ''taken'' example_db)
       = Inr ((task_toDomainMapper (example_task_row 31 30))
            \<lparr>Task_Status := ''completed'', Task_Done := Some True,
             Task_Feedback := Some ''taken'', Task_UpdatedAt := 2000\<rparr>)
   \<and> UpdateTaskStatus 31 ''completed'' True ''taken''
        (snd (UpdateTaskStatus 31 ''completed'' True ''taken'' example_db))
       = UpdateTaskStatus 31 ''completed'' True ''taken'' example_db
   \<and> fst (UpdateTaskStatus 31 ''completed'' True ''taken''
        ((snd (UpdateTaskStatus 31 ''completed'' True ''taken'' example_db))\<lparr>db_now := 2600\<rparr>))
       = Inr ((task_toDomainMapper (example_task_row 31 30))
            \<lparr>Task_Status := ''completed'', Task_Done := Some True,
             Task_Feedback := Some ''taken'', Task_UpdatedAt := 2600\<rparr>)
   \<and> fst (UpdateTaskStatus 99 ''completed'' True ''taken'' example_db)
       = Inl (GormError ErrRecordNotFound)
   \<and> UpdateTaskStatus 99 ''completed'' True ''taken''
        (snd (UpdateTaskStatus 99 ''completed'' True ''taken'' example_db))
       = UpdateTaskStatus 99 ''completed'' True ''taken'' example_db"
  using UpdateTaskStatus_idempotent [OF example_no_faults, of 31 "''completed''" True "''taken''"
          "(task_toDomainMapper (example_task_row 31 30))
            \<lparr>Task_Status := ''completed'', Task_Done := Some True,
             Task_Feedback := Some ''taken'', Task_UpdatedAt := 2000\<rparr>" 2600]
    UpdateTaskStatus_idempotent [OF example_no_faults, of 99 "''completed''" True "''taken''"]
    example_UpdateTaskStatus_31 example_no_faults
  by simp

subsection \<open>The order of the scheduled slot\<close>

lemma assignments_append:
  "assignments col (xs @ ys)
   = (case assignments col xs of
        None \<Rightarrow> None
      | Some f \<Rightarrow> (case assignments col ys of
                     None \<Rightarrow> None
                   | Some g \<Rightarrow> Some (\<lambda>r. g (f r))))"
  by (induction xs) (auto split: option.splits)

lemma Controller_updates_assignments:
  "\<exists>f. assignments schedule_column (Controller_updates request) = Some f
       \<and> (\<forall>r. Row_ScheduledSlotFrom (f r) = Row_ScheduledSlotFrom r
              \<and> Row_ScheduledSlotTo (f r) = Row_ScheduledSlotTo r)"
  by (simp add: Controller_updates_def assignments_append schedule_column_def)

lemma Controller_updates_slot_assignments:
  "\<exists>f. assignments schedule_column
         (Controller_updates request
          @ [(''scheduled_slot_from'', DTime a), (''scheduled_slot_to'', DTime b)]) = Some f
       \<and> (\<forall>r. Row_ScheduledSlotFrom (f r) = a \<and> Row_ScheduledSlotTo (f r) = b)"
proof -
  obtain f where f: "assignments schedule_column (Controller_updates request) = Some f"
    using Controller_updates_assignments by blast
  have "assignments schedule_column
          [(''scheduled_slot_from'', DTime a), (''scheduled_slot_to'', DTime b)]
        = Some (\<lambda>r. r\<lparr>Row_ScheduledSlotFrom := a, Row_ScheduledSlotTo := b\<rparr>)"
    by (simp add: schedule_column_def)
  with f show ?thesis by (simp add: assignments_append del: assignments.simps)
qed

lemma slots_ordered_unchanged:
  "store_unchanged d d' \<Longrightarrow> slots_ordered d' = slots_ordered d"
  by (simp add: slots_ordered_def store_unchanged_def)

lemma GetScheduleWithClientInfo_unchanged:
  "GetScheduleWithClientInfo sid d = (r, d') \<Longrightarrow> store_unchanged d d'"
  by (auto simp: GetScheduleWithClientInfo_def split: prod.splits sum.splits
           dest!: GetScheduleByID_unchanged GetByID_unchanged intro: store_unchanged_trans)

lemma UpdateSchedule_effect:
  assumes "UpdateSchedule sid upd d = (r, d')"
  shows "store_unchanged d d'
         \<or> (\<exists>f now. assignments schedule_column upd = Some f
                 \<and> db_schedules d'
                     = map (\<lambda>r. if Row_ID r = sid then touched upd now f r else r)
                         (db_schedules d))"
proof -
  obtain r1 d1 where g: "Repository_GetScheduleByID sid d = (r1, d1)"
    by (cases "Repository_GetScheduleByID sid d")
  obtain e2 d2 where c:
    "UpdateSchedule_user ''client_user_id'' ''new client user not found'' upd d1 = (e2, d2)"
    by (cases "UpdateSchedule_user ''client_user_id'' ''new client user not found'' upd d1")
  obtain e3 d3 where a:
    "UpdateSchedule_user ''assigned_user_id'' ''new assigned user not found'' upd d2 = (e3, d3)"
    by (cases "UpdateSchedule_user ''assigned_user_id'' ''new assigned user not found'' upd d2")
  have u1: "store_unchanged d d1" using g by (rule GetScheduleByID_unchanged)
  have u2: "store_unchanged d d2"
    using u1 UpdateSchedule_user_unchanged[OF c] by (rule store_unchanged_trans)
  have u3: "store_unchanged d d3"
    using u2 UpdateSchedule_user_unchanged[OF a] by (rule store_unchanged_trans)
  show ?thesis
  proof (cases "\<exists>s. r1 = Inr s \<and> e2 = None \<and> e3 = None \<and> UpdateSchedule_status s upd = None")
    case True
    with g c a assms have "Repository_UpdateSchedule sid upd d3 = (r, d')"
      by (auto simp: UpdateSchedule_def)
    from Repository_UpdateSchedule_effect[OF this] u3 show ?thesis
      by (auto simp: store_unchanged_def)
  next
    case False
    with g c a assms u1 u2 u3 show ?thesis
      by (cases r1; cases e2; cases e3) (auto simp: UpdateSchedule_def split: option.splits)
  qed
qed

lemma UpdateSchedule_returns_stored:
  assumes "UpdateSchedule sid upd d = (Inr s', d')"
  shows "\<exists>r' \<in> set (db_schedules d').
           From (ScheduledSlot s') = Row_ScheduledSlotFrom r'
           \<and> To (ScheduledSlot s') = Row_ScheduledSlotTo r'"
proof -
  from assms obtain d3 where "Repository_UpdateSchedule sid upd d3 = (Inr s', d')"
    by (auto simp: UpdateSchedule_def split: prod.splits sum.splits option.splits)
  from Repository_UpdateSchedule_success[OF this] obtain r' where
    r': "find (\<lambda>r. Row_ID r = sid) (db_schedules d') = Some r'"
    and s': "s' = toDomainMapper (preload_tasks (db_tasks d3) r')" by blast
  from r' have "r' \<in> set (db_schedules d')" by (auto simp: find_Some_iff)
  with s' show ?thesis by (auto simp: toDomainMapper_def preload_tasks_def)
qed

lemma slots_ordered_update:
  assumes "slots_ordered d"
    and "db_schedules d' = map (\<lambda>r. if Row_ID r = sid then touched upd now f r else r)
                             (db_schedules d)"
    and "\<And>r. Row_ScheduledSlotFrom r \<le> Row_ScheduledSlotTo r
            \<Longrightarrow> Row_ScheduledSlotFrom (f r) \<le> Row_ScheduledSlotTo (f r)"
  shows "slots_ordered d'"
  using assms
  by (auto simp: slots_ordered_def list_all_iff touched_def)

lemma Controller_UpdateSchedule_send_ordered:
  assumes "slots_ordered d"
    and "assignments schedule_column upd = Some f"
    and "\<And>r. Row_ScheduledSlotFrom r \<le> Row_ScheduledSlotTo r
            \<Longrightarrow> Row_ScheduledSlotFrom (f r) \<le> Row_ScheduledSlotTo (f r)"
  shows "slots_ordered (snd (Controller_UpdateSchedule_send sid upd d))
       \<and> (fst (Controller_UpdateSchedule_send sid upd d) = Inr (updated, client)
            \<longrightarrow> From (ScheduledSlot updated) \<le> To (ScheduledSlot updated))"
proof (cases "length upd = 0")
  case True
  with assms(1) show ?thesis by (simp add: Controller_UpdateSchedule_send_def)
next
  case False
  obtain r1 d1 where u: "UpdateSchedule sid upd d = (r1, d1)"
    by (cases "UpdateSchedule sid upd d")
  have o1: "slots_ordered d1"
    using UpdateSchedule_effect[OF u] assms
    by (auto simp: slots_ordered_unchanged intro: slots_ordered_update)
  show ?thesis
  proof (cases r1)
    case (Inl e)
    with False u o1 show ?thesis by (simp add: Controller_UpdateSchedule_send_def)
  next
    case (Inr s')
    obtain r2 d2 where g: "GetScheduleWithClientInfo sid d1 = (r2, d2)"
      by (cases "GetScheduleWithClientInfo sid d1")
    have o2: "slots_ordered d2"
      using GetScheduleWithClientInfo_unchanged[OF g] o1 by (simp add: slots_ordered_unchanged)
    from UpdateSchedule_returns_stored[of sid upd d s' d1] u Inr o1
    have ret: "From (ScheduledSlot s') \<le> To (ScheduledSlot s')"
      by (auto simp: slots_ordered_def list_all_iff)
    from False u Inr g o2 ret show ?thesis
      by (auto simp: Controller_UpdateSchedule_send_def split: sum.splits prod.splits)
  qed
qed

lemma Controller_UpdateSchedule_ordered:
  assumes "slots_ordered d"
  shows "slots_ordered (snd (Controller_UpdateSchedule parsed bound d))
       \<and> (fst (Controller_UpdateSchedule parsed bound d) = Inr (updated, client)
            \<longrightarrow> From (ScheduledSlot updated) \<le> To (ScheduledSlot updated))"
proof (cases parsed)
  case None
  with assms show ?thesis by (simp add: Controller_UpdateSchedule_def)
next
  case (Some sid)
  obtain r1 d1 where g: "GetScheduleWithClientInfo sid d = (r1, d1)"
    by (cases "GetScheduleWithClientInfo sid d")
  have o1: "slots_ordered d1"
    using GetScheduleWithClientInfo_unchanged[OF g] assms by (simp add: slots_ordered_unchanged)
  show ?thesis
  proof (cases r1)
    case (Inl e)
    with Some g o1 show ?thesis by (simp add: Controller_UpdateSchedule_def)
  next
    case found: (Inr x)
    show ?thesis
    proof (cases bound)
      case (Inl msg)
      with Some g found o1 show ?thesis by (simp add: Controller_UpdateSchedule_def)
    next
      case (Inr request)
      show ?thesis
      proof (cases "Upd_ScheduledSlot request")
        case None
        obtain f where f: "assignments schedule_column (Controller_updates request) = Some f"
          "\<And>r. Row_ScheduledSlotFrom (f r) = Row_ScheduledSlotFrom r"
          "\<And>r. Row_ScheduledSlotTo (f r) = Row_ScheduledSlotTo r"
          using Controller_updates_assignments[of request] by blast
        from Controller_UpdateSchedule_send_ordered[OF o1 f(1), of sid updated client]
          Some g found Inr None f(2,3)
        show ?thesis by (simp add: Controller_UpdateSchedule_def)
      next
        case slot: (Some slot)
        show ?thesis
        proof (cases "IsZero (From slot) \<or> IsZero (To slot) \<or> After (From slot) (To slot)")
          case True
          with Some g found Inr slot o1 show ?thesis
            by (auto simp: Controller_UpdateSchedule_def)
        next
          case False
          then have le: "From slot \<le> To slot" by (simp add: After_def)
          obtain f where f: "assignments schedule_column
               (Controller_updates request
                @ [(''scheduled_slot_from'', DTime (From slot)),
                   (''scheduled_slot_to'', DTime (To slot))]) = Some f"
            "\<And>r. Row_ScheduledSlotFrom (f r) = From slot"
            "\<And>r. Row_ScheduledSlotTo (f r) = To slot"
            using Controller_updates_slot_assignments[of request "From slot" "To slot"] by blast
          from Controller_UpdateSchedule_send_ordered[OF o1 f(1), of sid updated client]
            Some g found Inr slot False f(2,3) le
          show ?thesis by (simp add: Controller_UpdateSchedule_def)
        qed
      qed
    qed
  qed
qed

lemma CreateSchedule_ordered:
  assumes "slots_ordered d"
    and "From (ScheduledSlot s) \<le> To (ScheduledSlot s)"
  shows "slots_ordered (snd (CreateSchedule new_uuid s d))
       \<and> (fst (CreateSchedule new_uuid s d) = Inr created
            \<longrightarrow> From (ScheduledSlot created) \<le> To (ScheduledSlot created))"
proof -
  obtain r1 d1 where c: "UserRepository_GetByID (ClientUserID s) d = (r1, d1)"
    by (cases "UserRepository_GetByID (ClientUserID s) d")
  obtain r2 d2 where a: "UserRepository_GetByID (AssignedUserID s) d1 = (r2, d2)"
    by (cases "UserRepository_GetByID (AssignedUserID s) d1")
  have u1: "store_unchanged d d1" using c by (rule GetByID_unchanged)
  have u2: "store_unchanged d d2" using u1 GetByID_unchanged[OF a] by (rule store_unchanged_trans)
  let ?s = "s\<lparr>VisitStatus := ''upcoming'', Tasks := CreateSchedule_tasks new_uuid 0 (Tasks s)\<rparr>"
  obtain r3 d3 where cr: "Repository_Create ?s d2 = (r3, d3)"
    by (cases "Repository_Create ?s d2")
  have o3: "slots_ordered d3
            \<and> (r3 = Inr created \<longrightarrow> From (ScheduledSlot created) \<le> To (ScheduledSlot created))"
  proof (cases r3)
    case (Inl e)
    with cr have "store_unchanged d2 d3" by (auto dest: Repository_Create_failure)
    with u2 assms(1) Inl show ?thesis
      using slots_ordered_unchanged store_unchanged_trans by blast
  next
    case (Inr s')
    with cr obtain row' where
      x: "db_create_schedule (fromDomainMapper ?s) d2 = (Inr row', d3)"
      and s': "s' = toDomainMapper row'"
      by (auto simp: Repository_Create_def split: prod.splits sum.splits)
    from db_create_schedule_success[OF x] assms u2 s' Inr show ?thesis
      by (auto simp: slots_ordered_def store_unchanged_def fromDomainMapper_def
            toDomainMapper_def)
  qed
  show ?thesis
  proof (cases "\<exists>x y. r1 = Inr x \<and> r2 = Inr y")
    case True
    with c a cr o3 show ?thesis by (auto simp: CreateSchedule_def)
  next
    case False
    with c a assms(1) u1 u2 show ?thesis
      by (cases r1; cases r2) (auto simp: CreateSchedule_def slots_ordered_unchanged)
  qed
qed

lemma Controller_CreateSchedule_ordered:
  assumes "slots_ordered d"
  shows "slots_ordered (snd (Controller_CreateSchedule new_uuid bound d))
       \<and> (fst (Controller_CreateSchedule new_uuid bound d) = Inr created
            \<longrightarrow> From (ScheduledSlot created) \<le> To (ScheduledSlot created))"
proof (cases bound)
  case (Inl msg)
  with assms show ?thesis by (simp add: Controller_CreateSchedule_def)
next
  case (Inr request)
  show ?thesis
  proof (cases "Req_ClientUserID request = uuid_Nil
                \<or> IsZero (From (Req_ScheduledSlot request)) \<or> IsZero (To (Req_ScheduledSlot request))
                \<or> After (From (Req_ScheduledSlot request)) (To (Req_ScheduledSlot request))
                \<or> length (Req_Tasks request) = 0")
    case True
    with Inr assms show ?thesis by (auto simp: Controller_CreateSchedule_def)
  next
    case False
    then have le: "From (Req_ScheduledSlot request) \<le> To (Req_ScheduledSlot request)"
      by (simp add: After_def)
    let ?s = "\<lparr> ID = uuid_Nil,
                ClientUserID = Req_ClientUserID request,
                AssignedUserID = Req_AssignedUserID request,
                ServiceName = Req_ServiceName request,
                ScheduledSlot = \<lparr> From = From (Req_ScheduledSlot request),
                                  To = To (Req_ScheduledSlot request) \<rparr>,
                VisitStatus = ''upcoming'',
                CheckinTime = None,
                CheckoutTime = None,
                CheckinLocation = \<lparr> Lat = None, Long = None \<rparr>,
                CheckoutLocation = \<lparr> Lat = None, Long = None \<rparr>,
                Tasks = map (\<lambda>taskReq.
                          \<lparr> Task_ID = uuid_Nil,
                            Task_ScheduleID = uuid_Nil,
                            Task_Title = Req_Title taskReq,
                            Task_Description = Req_Description taskReq,
                            Task_Status = ''pending'',
                            Task_Done = None,
                            Task_Feedback = None,
                            Task_CreatedAt = 0,
                            Task_UpdatedAt = 0 \<rparr>) (Req_Tasks request),
                ServiceNote = None,
                CreatedAt = 0,
                UpdatedAt = 0 \<rparr>"
    have "From (ScheduledSlot ?s) \<le> To (ScheduledSlot ?s)" using le by simp
    from CreateSchedule_ordered[OF assms this, of new_uuid created] False Inr
    show ?thesis by (simp add: Controller_CreateSchedule_def)
  qed
qed

lemmas controller_defs =
  Controller_CreateSchedule_def Controller_UpdateSchedule_def Controller_UpdateSchedule_send_def
  Controller_updates_def GetScheduleWithClientInfo_def CreateSchedule_def UpdateSchedule_def
  UpdateSchedule_user_def UpdateSchedule_status_def

lemma example_slots_ordered: "slots_ordered example_db"
  by (simp add: slots_ordered_def example_defs)

lemma example_GetScheduleWithClientInfo_10:
  "GetScheduleWithClientInfo 10 example_db
   = (Inr (example_schedule 10 200 ''upcoming'', Some (example_user 100)), example_db)"
  by (simp add: GetScheduleWithClientInfo_def example_GetScheduleByID_10 example_schedule_fields
        example_GetByID_100)

lemma example_Controller_CreateSchedule:
  "From (ScheduledSlot (projr (fst (Controller_CreateSchedule example_new_uuid
      (Inr (example_create_request 4000 6000)) example_db)))) = 4000"
  "To (ScheduledSlot (projr (fst (Controller_CreateSchedule example_new_uuid
      (Inr (example_create_request 4000 6000)) example_db)))) = 6000"
  "\<not> isl (fst (Controller_CreateSchedule example_new_uuid
      (Inr (example_create_request 4000 6000)) example_db))"
  "map Row_ScheduledSlotFrom (db_schedules (snd (Controller_CreateSchedule example_new_uuid
      (Inr (example_create_request 4000 6000)) example_db))) = [1000, 1000, 1000, 1000, 4000]"
  "map Row_ScheduledSlotTo (db_schedules (snd (Controller_CreateSchedule example_new_uuid
      (Inr (example_create_request 4000 6000)) example_db))) = [3000, 3000, 3000, 3000, 6000]"
  by (simp_all add: controller_defs example_defs store_defs Let_def)

lemma example_Controller_UpdateSchedule:
  "\<not> isl (fst (Controller_UpdateSchedule (Some 10) (Inr (example_update_request 1200 2800))
      example_db))"
  "map Row_ScheduledSlotFrom (db_schedules (snd (Controller_UpdateSchedule (Some 10)
      (Inr (example_update_request 1200 2800)) example_db))) = [1200, 1000, 1000, 1000]"
  "map Row_ScheduledSlotTo (db_schedules (snd (Controller_UpdateSchedule (Some 10)
      (Inr (example_update_request 1200 2800)) example_db))) = [2800, 3000, 3000, 3000]"
  by (simp_all add: controller_defs example_defs store_defs)

text \<open>
  C4, as the specification states it, fails for the operations of the use case: neither
  \<open>ScheduleUseCase.CreateSchedule\<close> nor \<open>ScheduleUseCase.UpdateSchedule\<close> looks at the slot.
  On the example store an update that sets only \<open>scheduled_slot_from\<close>, to 5000, succeeds
  and leaves schedule 10 with the slot from 5000 to 3000; a schedule created with the slot
  from 6000 to 4000 is stored so.
\<close>

theorem scheduled_slot_ordered_counterexample:
  "slots_ordered example_db
   \<and> \<not> isl (fst (UpdateSchedule 10 [(''scheduled_slot_from'', DTime 5000)] example_db))
   \<and> map Row_ScheduledSlotFrom (db_schedules (snd (UpdateSchedule 10
        [(''scheduled_slot_from'', DTime 5000)] example_db))) = [5000, 1000, 1000, 1000]
   \<and> map Row_ScheduledSlotTo (db_schedules (snd (UpdateSchedule 10
        [(''scheduled_slot_from'', DTime 5000)] example_db))) = [3000, 3000, 3000, 3000]
   \<and> \<not> slots_ordered (snd (UpdateSchedule 10 [(''scheduled_slot_from'', DTime 5000)]
                              example_db))
   \<and> \<not> isl (fst (CreateSchedule example_new_uuid
              ((example_new_schedule 100 200)\<lparr>ScheduledSlot := \<lparr> From = 6000, To = 4000 \<rparr>\<rparr>)
              example_db))
   \<and> map Row_ScheduledSlotFrom (db_schedules (snd (CreateSchedule example_new_uuid
        ((example_new_schedule 100 200)\<lparr>ScheduledSlot := \<lparr> From = 6000, To = 4000 \<rparr>\<rparr>)
        example_db))) = [1000, 1000, 1000, 1000, 6000]
   \<and> map Row_ScheduledSlotTo (db_schedules (snd (CreateSchedule example_new_uuid
        ((example_new_schedule 100 200)\<lparr>ScheduledSlot := \<lparr> From = 6000, To = 4000 \<rparr>\<rparr>)
        example_db))) = [3000, 3000, 3000, 3000, 4000]"
  by (simp add: controller_defs example_defs store_defs slots_ordered_def Let_def)

text \<open>
  C4, amended: the order of the slot is kept by the controller. If every stored schedule
  has \<open>from \<le> to\<close>, so it is after \<open>Controller.CreateSchedule\<close> and after
  \<open>Controller.UpdateSchedule\<close>, whatever the request and the outcome, and the schedule
  either returns has \<open>from \<le> to\<close>. A request to create a schedule with \<open>to\<close> before
  \<open>from\<close> is rejected with \<open>ValidationError\<close> and no database call is made; a request
  to update a stored schedule with such a slot is rejected with \<open>ValidationError\<close> after
  the schedule was read, the tables as before.
\<close>

theorem scheduled_slot_ordered:
  "(slots_ordered d \<longrightarrow>
      slots_ordered (snd (Controller_CreateSchedule new_uuid bound d))
      \<and> (fst (Controller_CreateSchedule new_uuid bound d) = Inr created
           \<longrightarrow> From (ScheduledSlot created) \<le> To (ScheduledSlot created)))
   \<and> (bound = Inr request
        \<and> To (Req_ScheduledSlot request) < From (Req_ScheduledSlot request) \<longrightarrow>
        result_error_type (fst (Controller_CreateSchedule new_uuid bound d))
          = Some ValidationError
        \<and> snd (Controller_CreateSchedule new_uuid bound d) = d)
   \<and> (slots_ordered d \<longrightarrow>
        slots_ordered (snd (Controller_UpdateSchedule parsed ubound d))
        \<and> (fst (Controller_UpdateSchedule parsed ubound d) = Inr (updated, client)
             \<longrightarrow> From (ScheduledSlot updated) \<le> To (ScheduledSlot updated)))
   \<and> (GetScheduleWithClientInfo sid d = (Inr found, d1) \<and> ubound = Inr urequest
        \<and> Upd_ScheduledSlot urequest = Some slot \<and> To slot < From slot \<longrightarrow>
        result_error_type (fst (Controller_UpdateSchedule (Some sid) ubound d))
          = Some ValidationError
        \<and> snd (Controller_UpdateSchedule (Some sid) ubound d) = d1
        \<and> store_unchanged d d1)"
  using Controller_CreateSchedule_ordered[of d new_uuid bound created]
    Controller_UpdateSchedule_ordered[of d parsed ubound updated client]
    GetScheduleWithClientInfo_unchanged[of sid d "Inr found" d1]
  by (auto simp: Controller_CreateSchedule_def Controller_UpdateSchedule_def After_def)

theorem scheduled_slot_ordered_witness:
  "slots_ordered example_db
   \<and> \<not> isl (fst (Controller_CreateSchedule example_new_uuid
              (Inr (example_create_request 4000 6000)) example_db))
   \<and> map Row_ScheduledSlotFrom (db_schedules (snd (Controller_CreateSchedule example_new_uuid
        (Inr (example_create_request 4000 6000)) example_db))) = [1000, 1000, 1000, 1000, 4000]
   \<and> map Row_ScheduledSlotTo (db_schedules (snd (Controller_CreateSchedule example_new_uuid
        (Inr (example_create_request 4000 6000)) example_db))) = [3000, 3000, 3000, 3000, 6000]
   \<and> slots_ordered (snd (Controller_CreateSchedule example_new_uuid
        (Inr (example_create_request 4000 6000)) example_db))
   \<and> result_error_type (fst (Controller_CreateSchedule example_new_uuid
        (Inr (example_create_request 6000 4000)) example_db)) = Some ValidationError
   \<and> snd (Controller_CreateSchedule example_new_uuid
        (Inr (example_create_request 6000 4000)) example_db) = example_db
   \<and> \<not> isl (fst (Controller_UpdateSchedule (Some 10) (Inr (example_update_request 1200 2800))
              example_db))
   \<and> map Row_ScheduledSlotFrom (db_schedules (snd (Controller_UpdateSchedule (Some 10)
        (Inr (example_update_request 1200 2800)) example_db))) = [1200, 1000, 1000, 1000]
   \<and> map Row_ScheduledSlotTo (db_schedules (snd (Controller_UpdateSchedule (Some 10)
        (Inr (example_update_request 1200 2800)) example_db))) = [2800, 3000, 3000, 3000]
   \<and> slots_ordered (snd (Controller_UpdateSchedule (Some 10)
        (Inr (example_update_request 1200 2800)) example_db))
   \<and> result_error_type (fst (Controller_UpdateSchedule (Some 10)
        (Inr (example_update_request 2800 1200)) example_db)) = Some ValidationError
   \<and> snd (Controller_UpdateSchedule (Some 10)
        (Inr (example_update_request 2800 1200)) example_db) = example_db"
proof -
  note t1 = scheduled_slot_ordered
    [where d = example_db and new_uuid = example_new_uuid
       and bound = "Inr (example_create_request 4000 6000)"
       and parsed = "Some 10" and ubound = "Inr (example_update_request 1200 2800)"]
  note t2 = scheduled_slot_ordered
    [where d = example_db and new_uuid = example_new_uuid
       and bound = "Inr (example_create_request 6000 4000)"
       and request = "example_create_request 6000 4000"
       and sid = 10 and found = "(example_schedule 10 200 ''upcoming'', Some (example_user 100))"
       and ?d1.0 = example_db
       and ubound = "Inr (example_update_request 2800 1200)"
       and urequest = "example_update_request 2800 1200"
       and slot = "\<lparr> From = 2800, To = 1200 \<rparr>"]
  have a1: "slots_ordered (snd (Controller_CreateSchedule example_new_uuid
        (Inr (example_create_request 4000 6000)) example_db))
   \<and> slots_ordered (snd (Controller_UpdateSchedule (Some 10)
        (Inr (example_update_request 1200 2800)) example_db))"
    using t1 example_slots_ordered by simp
  have a2: "result_error_type (fst (Controller_CreateSchedule example_new_uuid
        (Inr (example_create_request 6000 4000)) example_db)) = Some ValidationError
   \<and> snd (Controller_CreateSchedule example_new_uuid
        (Inr (example_create_request 6000 4000)) example_db) = example_db
   \<and> result_error_type (fst (Controller_UpdateSchedule (Some 10)
        (Inr (example_update_request 2800 1200)) example_db)) = Some ValidationError
   \<and> snd (Controller_UpdateSchedule (Some 10)
        (Inr (example_update_request 2800 1200)) example_db) = example_db"
    using t2 example_GetScheduleWithClientInfo_10
    by (simp add: example_create_request_def example_update_request_def)
  from a1 a2 example_Controller_CreateSchedule example_Controller_UpdateSchedule
    example_slots_ordered
  show ?thesis by simp
qed

end
